theory Spec2Isabelle
  imports Complex_Main
begin

section \<open>JavaScript values\<close>

text \<open>
  The evaluator of \<^verbatim>\<open>expression-evaluator.ts\<close> computes with JavaScript values. The
  model covers the values the package documents for a context: undefined, null,
  booleans, numbers, strings, plain objects and arrays.

  \<^item> A number is NaN, an infinity or a finite value, kept as the rational it denotes;
    \<open>round_double\<close> rounds a rational to the nearest binary64 value. The two zeros
    are one value: the evaluator has no operation that tells them apart.
  \<^item> A string is a list of 8-bit characters (code units below 256).
  \<^item> Objects and arrays carry an identity, a natural number: \<^verbatim>\<open>===\<close> on them compares
    identities. An object has a list of own data properties, each with its enumerable
    flag, and a prototype chain. The chain is a sequence of plain objects, given by
    their own data properties, and ends in null (\<^verbatim>\<open>Object.create(null)\<close>) or in the
    built-in \<^verbatim>\<open>Object.prototype\<close>, as the chain of an object literal or of parsed JSON
    does. An array is dense and inherits the built-in \<^verbatim>\<open>Array.prototype\<close>; its own
    keys are the indices and the non-enumerable \<^verbatim>\<open>length\<close>.
  \<^item> Functions, symbols, bigints, accessors and proxies are outside the model: no
    property of the model holds a function. The methods of the two built-in
    prototypes are not values of the model either; the conversions below say where
    the runtime calls them.
\<close>

datatype jsnum = NaN | Fin rat | PosInf | NegInf

datatype 'a prototype =
    NullPrototype
  | ObjectPrototype
  | Prototype "(string \<times> bool \<times> 'a) list" "'a prototype"

datatype jsval =
    VUndefined
  | VNull
  | VBool bool
  | VNum jsnum
  | VStr string
  | VObj nat "(string \<times> bool \<times> jsval) list" "jsval prototype"
  | VArr nat "jsval list"

text \<open>
  The package throws \<^verbatim>\<open>ExpressionSyntaxError\<close> and \<^verbatim>\<open>ExpressionSecurityError\<close>, each
  with a message. \<open>TypeError\<close> is the runtime's own exception, thrown where the code
  reads a property of \<^verbatim>\<open>undefined\<close> and where an operator cannot convert an object
  to a primitive value.
\<close>

datatype error =
    ExpressionSyntaxError string
  | ExpressionSecurityError string
  | TypeError string

subsection \<open>Numbers: rounding to binary64\<close>

definition pow2 :: "int \<Rightarrow> rat" where
  "pow2 e = (if 0 \<le> e then 2 ^ nat e else 1 / 2 ^ nat (- e))"

definition pow10 :: "int \<Rightarrow> rat" where
  "pow10 e = (if 0 \<le> e then 10 ^ nat e else 1 / 10 ^ nat (- e))"

function bitlen :: "int \<Rightarrow> int" where
  \<comment> \<open>the number of bits of a positive integer\<close>
  "bitlen n = (if n \<le> 0 then 0 else 1 + bitlen (n div 2))"
  by pat_completeness auto
termination
  by (relation "measure nat") auto

declare bitlen.simps [simp del]

definition floor_log2 :: "rat \<Rightarrow> int" where
  \<comment> \<open>for \<open>0 < q\<close>: the \<open>k\<close> with \<open>2 ^ k \<le> q < 2 ^ (k + 1)\<close>\<close>
  "floor_log2 q =
     (let k = bitlen (fst (quotient_of q)) - bitlen (snd (quotient_of q))
      in if pow2 k \<le> q then k else k - 1)"

definition round_half_even :: "rat \<Rightarrow> int" where
  "round_half_even q =
     (let f = \<lfloor>q\<rfloor>; r = q - of_int f
      in if r < 1 / 2 then f
         else if 1 / 2 < r then f + 1
         else if even f then f else f + 1)"

definition round_double :: "rat \<Rightarrow> jsnum" where
  \<comment> \<open>round to nearest, ties to even; 53 bits of precision, exponents from -1074\<close>
  "round_double q =
     (if q = 0 then Fin 0
      else let a = \<bar>q\<bar>;
               e = max (floor_log2 a - 52) (- 1074);
               r = of_int (round_half_even (a / pow2 e)) * pow2 e
           in if 2 ^ 1024 \<le> r then (if q < 0 then NegInf else PosInf)
              else Fin (if q < 0 then - r else r))"

subsection \<open>Strings and numbers\<close>

definition code_unit :: "char \<Rightarrow> nat" where
  "code_unit c = of_char c"

definition in_range :: "char \<Rightarrow> char \<Rightarrow> char \<Rightarrow> bool" where
  \<comment> \<open>a character class \<^verbatim>\<open>[lo-hi]\<close>\<close>
  "in_range lo hi c = (code_unit lo \<le> code_unit c \<and> code_unit c \<le> code_unit hi)"

definition is_digit :: "char \<Rightarrow> bool" where
  \<comment> \<open>\<^verbatim>\<open>/\\d/\<close>\<close>
  "is_digit c = in_range CHR ''0'' CHR ''9'' c"

definition is_space :: "char \<Rightarrow> bool" where
  \<comment> \<open>\<^verbatim>\<open>/\\s/\<close> on code units below 256: tab, LF, VT, FF, CR, space, no-break space\<close>
  "is_space c = (code_unit c \<in> {9::nat, 10, 11, 12, 13, 32, 160})"

definition digit_val :: "char \<Rightarrow> int" where
  "digit_val c =
     (if is_digit c then int (code_unit c) - 48
      else if in_range CHR ''a'' CHR ''f'' c then int (code_unit c) - 87
      else if in_range CHR ''A'' CHR ''F'' c then int (code_unit c) - 55
      else 0)"

definition digits_val :: "int \<Rightarrow> string \<Rightarrow> int" where
  \<comment> \<open>the value of a run of digits in the given radix\<close>
  "digits_val radix ds = foldl (\<lambda>acc c. acc * radix + digit_val c) 0 ds"

definition is_radix_digit :: "int \<Rightarrow> char \<Rightarrow> bool" where
  "is_radix_digit radix c =
     ((is_digit c \<or> in_range CHR ''a'' CHR ''f'' c \<or> in_range CHR ''A'' CHR ''F'' c)
      \<and> digit_val c < radix)"

definition trim :: "string \<Rightarrow> string" where
  "trim s = rev (dropWhile is_space (rev (dropWhile is_space s)))"

definition exponent_part :: "string \<Rightarrow> int option" where
  \<comment> \<open>ExponentPart, or nothing, up to the end of the string\<close>
  "exponent_part s =
     (case s of
        [] \<Rightarrow> Some 0
      | c # t \<Rightarrow>
          if c = CHR ''e'' \<or> c = CHR ''E'' then
            (case t of
               [] \<Rightarrow> None
             | d # u \<Rightarrow>
                 if d = CHR ''-'' then
                   (if u \<noteq> [] \<and> list_all is_digit u then Some (- digits_val 10 u) else None)
                 else if d = CHR ''+'' then
                   (if u \<noteq> [] \<and> list_all is_digit u then Some (digits_val 10 u) else None)
                 else if list_all is_digit t then Some (digits_val 10 t) else None)
          else None)"

definition unsigned_decimal :: "string \<Rightarrow> jsnum" where
  \<comment> \<open>StrUnsignedDecimalLiteral\<close>
  "unsigned_decimal s =
     (if s = ''Infinity'' then PosInf
      else
        let ip = takeWhile is_digit s; r1 = dropWhile is_digit s;
            fp = (case r1 of [] \<Rightarrow> [] | c # t \<Rightarrow> if c = CHR ''.'' then takeWhile is_digit t else []);
            r2 = (case r1 of [] \<Rightarrow> [] | c # t \<Rightarrow> if c = CHR ''.'' then dropWhile is_digit t else r1)
        in if ip = [] \<and> fp = [] then NaN
           else (case exponent_part r2 of
                   None \<Rightarrow> NaN
                 | Some ex \<Rightarrow>
                     round_double (of_int (digits_val 10 (ip @ fp)) * pow10 (ex - int (length fp)))))"

definition negate :: "jsnum \<Rightarrow> jsnum" where
  "negate n = (case n of NaN \<Rightarrow> NaN | Fin q \<Rightarrow> Fin (- q) | PosInf \<Rightarrow> NegInf | NegInf \<Rightarrow> PosInf)"

definition non_decimal :: "int \<Rightarrow> string \<Rightarrow> jsnum" where
  "non_decimal radix ds =
     (if ds \<noteq> [] \<and> list_all (is_radix_digit radix) ds
      then round_double (of_int (digits_val radix ds)) else NaN)"

definition string_to_number :: "string \<Rightarrow> jsnum" where
  \<comment> \<open>StringToNumber of ECMAScript, as \<^verbatim>\<open>Number(s)\<close> applies it to a string\<close>
  "string_to_number s =
     (let t = trim s
      in case t of
           [] \<Rightarrow> Fin 0
         | c # u \<Rightarrow>
             if c = CHR ''+'' then unsigned_decimal u
             else if c = CHR ''-'' then negate (unsigned_decimal u)
             else if c = CHR ''0'' \<and> u \<noteq> [] \<and> (hd u = CHR ''x'' \<or> hd u = CHR ''X'')
               then non_decimal 16 (tl u)
             else if c = CHR ''0'' \<and> u \<noteq> [] \<and> (hd u = CHR ''o'' \<or> hd u = CHR ''O'')
               then non_decimal 8 (tl u)
             else if c = CHR ''0'' \<and> u \<noteq> [] \<and> (hd u = CHR ''b'' \<or> hd u = CHR ''B'')
               then non_decimal 2 (tl u)
             else unsigned_decimal t)"

subsection \<open>Number to string\<close>

function digits_of :: "int \<Rightarrow> string" where
  \<comment> \<open>the decimal digits of a natural number\<close>
  "digits_of n =
     (if n < 10 then [char_of (48 + n)] else digits_of (n div 10) @ [char_of (48 + n mod 10)])"
  by pat_completeness auto
termination
  by (relation "measure nat") auto

declare digits_of.simps [simp del]

definition decimal_exponent :: "rat \<Rightarrow> int" where
  \<comment> \<open>for \<open>0 < x\<close>: the \<open>n\<close> with \<open>10 ^ (n - 1) \<le> x < 10 ^ n\<close>\<close>
  "decimal_exponent x =
     (let g = (if 1 \<le> x then int (length (digits_of \<lfloor>x\<rfloor>))
               else 1 - int (length (digits_of \<lfloor>1 / x\<rfloor>)))
      in if pow10 g \<le> x then g + 1 else g)"

definition digit_candidates :: "rat \<Rightarrow> int \<Rightarrow> int \<Rightarrow> (int \<times> int) list" where
  \<comment> \<open>the \<open>(n, s)\<close> with \<open>k\<close> digits in \<open>s\<close> whose value \<open>s * 10 ^ (n - k)\<close> is the number \<open>x\<close>\<close>
  "digit_candidates x k n =
     (let lo = \<lfloor>x / pow10 (n - k)\<rfloor>
      in map (Pair n)
           (filter (\<lambda>s. 10 ^ nat (k - 1) \<le> s \<and> s < 10 ^ nat k
                        \<and> round_double (of_int s * pow10 (n - k)) = Fin x)
              [lo, lo + 1]))"

definition closer :: "rat \<Rightarrow> int \<Rightarrow> int \<times> int \<Rightarrow> int \<times> int \<Rightarrow> int \<times> int" where
  \<comment> \<open>of two candidates the one nearer to \<open>x\<close>, the even one on a tie\<close>
  "closer x k a b =
     (let da = \<bar>of_int (snd a) * pow10 (fst a - k) - x\<bar>;
          db = \<bar>of_int (snd b) * pow10 (fst b - k) - x\<bar>
      in if da < db then a else if db < da then b else if even (snd a) then a else b)"

function shortest_digits :: "rat \<Rightarrow> int \<Rightarrow> int \<times> int \<times> int" where
  \<comment> \<open>\<open>(n, k, s)\<close> of Number::toString: the least \<open>k\<close> that has a candidate\<close>
  "shortest_digits x k =
     (let n0 = decimal_exponent x;
          cs = digit_candidates x k n0 @ digit_candidates x k (n0 + 1)
      in case cs of
           [] \<Rightarrow> if 17 \<le> k then (n0, k, \<lfloor>x / pow10 (n0 - k)\<rfloor>) else shortest_digits x (k + 1)
         | c # cs' \<Rightarrow> (fst (foldl (closer x k) c cs'), k, snd (foldl (closer x k) c cs')))"
  by pat_completeness auto
termination
  by (relation "measure (\<lambda>(x, k). nat (17 - k))") auto

declare shortest_digits.simps [simp del]

definition positive_to_string :: "rat \<Rightarrow> string" where
  "positive_to_string x =
     (case shortest_digits x 1 of
        (n, k, s) \<Rightarrow>
          let ds = digits_of s
          in if k \<le> n \<and> n \<le> 21 then ds @ replicate (nat (n - k)) CHR ''0''
             else if 0 < n \<and> n \<le> 21 then take (nat n) ds @ ''.'' @ drop (nat n) ds
             else if - 6 < n \<and> n \<le> 0 then ''0.'' @ replicate (nat (- n)) CHR ''0'' @ ds
             else let es = (if n - 1 < 0 then ''-'' else ''+'') @ digits_of \<bar>n - 1\<bar>
                  in if k = 1 then ds @ ''e'' @ es
                     else take 1 ds @ ''.'' @ drop 1 ds @ ''e'' @ es)"

definition number_to_string :: "jsnum \<Rightarrow> string" where
  \<comment> \<open>Number::toString with radix 10\<close>
  "number_to_string n =
     (case n of
        NaN \<Rightarrow> ''NaN''
      | PosInf \<Rightarrow> ''Infinity''
      | NegInf \<Rightarrow> ''-Infinity''
      | Fin q \<Rightarrow>
          if q = 0 then ''0''
          else if q < 0 then ''-'' @ positive_to_string (- q)
          else positive_to_string q)"

subsection \<open>Properties\<close>

definition index_key :: "nat \<Rightarrow> string" where
  "index_key i = digits_of (int i)"

fun has_own :: "jsval \<Rightarrow> string \<Rightarrow> bool" where
  \<comment> \<open>\<^verbatim>\<open>Object.hasOwn(o, k)\<close> on an object: own keys, enumerable or not\<close>
  "has_own (VObj i props proto) k = (k \<in> set (map fst props))"
| "has_own (VArr i xs) k = (k = ''length'' \<or> k \<in> set (map index_key [0..<length xs]))"
| "has_own v k = False"

primrec inherited :: "'a prototype \<Rightarrow> string \<Rightarrow> 'a option" where
  \<comment> \<open>the data property of that name nearest on a prototype chain\<close>
  "inherited NullPrototype k = None"
| "inherited ObjectPrototype k = None"
| "inherited (Prototype props proto) k =
     (case map_of props k of Some (enumerable, v) \<Rightarrow> Some v | None \<Rightarrow> inherited proto k)"

primrec built_in_root :: "'a prototype \<Rightarrow> bool" where
  \<comment> \<open>the chain ends in \<^verbatim>\<open>Object.prototype\<close>\<close>
  "built_in_root NullPrototype = False"
| "built_in_root ObjectPrototype = True"
| "built_in_root (Prototype props proto) = built_in_root proto"

fun js_get :: "jsval \<Rightarrow> string \<Rightarrow> jsval" where
  \<comment> \<open>\<^verbatim>\<open>o[k]\<close> on an object: the own data property, else the nearest one on the
      prototype chain. The evaluator reads \<^verbatim>\<open>o[k]\<close> only after \<^verbatim>\<open>Object.hasOwn(o, k)\<close>.\<close>
  "js_get (VObj i props proto) k =
     (case map_of props k of
        Some (enumerable, v) \<Rightarrow> v
      | None \<Rightarrow> (case inherited proto k of Some v \<Rightarrow> v | None \<Rightarrow> VUndefined))"
| "js_get (VArr i xs) k =
     (if k = ''length'' then VNum (Fin (of_nat (length xs)))
      else case find (\<lambda>j. index_key j = k) [0..<length xs] of
             Some j \<Rightarrow> xs ! j
           | None \<Rightarrow> VUndefined)"
| "js_get v k = VUndefined"

definition is_enumerable :: "jsval \<Rightarrow> string \<Rightarrow> bool" where
  \<comment> \<open>\<^verbatim>\<open>Object.prototype.propertyIsEnumerable\<close>: an own key with the enumerable flag\<close>
  "is_enumerable v k =
     (case v of
        VObj i props proto \<Rightarrow> (case map_of props k of Some (enumerable, x) \<Rightarrow> enumerable | None \<Rightarrow> False)
      | VArr i xs \<Rightarrow> k \<in> set (map index_key [0..<length xs])
      | _ \<Rightarrow> False)"

definition is_array :: "jsval \<Rightarrow> bool" where
  \<comment> \<open>\<^verbatim>\<open>Array.isArray\<close>\<close>
  "is_array v = (case v of VArr i xs \<Rightarrow> True | _ \<Rightarrow> False)"

definition is_object :: "jsval \<Rightarrow> bool" where
  "is_object v = (case v of VObj i props proto \<Rightarrow> True | VArr i xs \<Rightarrow> True | _ \<Rightarrow> False)"

definition built_in_method :: "jsval \<Rightarrow> string \<Rightarrow> bool" where
  \<comment> \<open>for the names \<^verbatim>\<open>toString\<close> and \<^verbatim>\<open>valueOf\<close>: \<^verbatim>\<open>o[name]\<close> is the method of the built-in
      prototype, so no data property of that name is found before the end of the
      chain, and the chain ends in a built-in prototype. An array has no own key of
      these names.\<close>
  "built_in_method v name =
     (case v of
        VObj i props proto \<Rightarrow>
          map_of props name = None \<and> inherited proto name = None \<and> built_in_root proto
      | VArr i xs \<Rightarrow> True
      | _ \<Rightarrow> False)"

subsection \<open>Conversions\<close>

text \<open>
  ToPrimitive on an object calls its \<^verbatim>\<open>valueOf\<close> and \<^verbatim>\<open>toString\<close> methods, skips one
  that is not callable or returns an object, and throws a TypeError when neither
  gives a primitive. The built-in \<^verbatim>\<open>valueOf\<close> returns the object itself, and a data
  property of the model is never callable. So the conversion succeeds exactly when
  \<^verbatim>\<open>toString\<close> is the built-in method: \<^verbatim>\<open>Object.prototype.toString\<close> for an object,
  \<^verbatim>\<open>Array.prototype.toString\<close> for an array, which joins the elements and converts
  each to a string in turn.
\<close>

definition cannot_convert :: error where
  "cannot_convert = TypeError ''Cannot convert object to primitive value''"

fun join_comma :: "string list \<Rightarrow> string" where
  "join_comma [] = []"
| "join_comma [s] = s"
| "join_comma (s # t # ss) = s @ '','' @ join_comma (t # ss)"

fun sequence :: "(error + 'a) list \<Rightarrow> error + 'a list" where
  \<comment> \<open>the results in order, up to the first exception\<close>
  "sequence [] = Inr []"
| "sequence (Inl e # rs) = Inl e"
| "sequence (Inr x # rs) = (case sequence rs of Inl e \<Rightarrow> Inl e | Inr xs \<Rightarrow> Inr (x # xs))"

fun to_string :: "jsval \<Rightarrow> error + string" where
  \<comment> \<open>ToString\<close>
  "to_string VUndefined = Inr ''undefined''"
| "to_string VNull = Inr ''null''"
| "to_string (VBool b) = Inr (if b then ''true'' else ''false'')"
| "to_string (VNum n) = Inr (number_to_string n)"
| "to_string (VStr s) = Inr s"
| "to_string (VObj i props proto) =
     (if built_in_method (VObj i props proto) ''toString'' then Inr ''[object Object]''
      else Inl cannot_convert)"
| "to_string (VArr i xs) =
     (case sequence (map (\<lambda>x. if x = VUndefined \<or> x = VNull then Inr [] else to_string x) xs) of
        Inl e \<Rightarrow> Inl e
      | Inr ss \<Rightarrow> Inr (join_comma ss))"

definition to_primitive :: "jsval \<Rightarrow> error + jsval" where
  \<comment> \<open>ToPrimitive, with the hint of the comparison operators\<close>
  "to_primitive v =
     (if is_object v then (case to_string v of Inl e \<Rightarrow> Inl e | Inr s \<Rightarrow> Inr (VStr s))
      else Inr v)"

definition to_number :: "jsval \<Rightarrow> jsnum" where
  \<comment> \<open>ToNumber on a primitive value\<close>
  "to_number v =
     (case v of
        VUndefined \<Rightarrow> NaN
      | VNull \<Rightarrow> Fin 0
      | VBool b \<Rightarrow> Fin (if b then 1 else 0)
      | VNum n \<Rightarrow> n
      | VStr s \<Rightarrow> string_to_number s
      | _ \<Rightarrow> NaN)"

definition to_boolean :: "jsval \<Rightarrow> bool" where
  \<comment> \<open>ToBoolean: what \<^verbatim>\<open>left ? a : b\<close> and \<^verbatim>\<open>!operand\<close> test\<close>
  "to_boolean v =
     (case v of
        VUndefined \<Rightarrow> False
      | VNull \<Rightarrow> False
      | VBool b \<Rightarrow> b
      | VNum n \<Rightarrow> n \<noteq> NaN \<and> n \<noteq> Fin 0
      | VStr s \<Rightarrow> s \<noteq> []
      | _ \<Rightarrow> True)"

definition typeof :: "jsval \<Rightarrow> string" where
  "typeof v =
     (case v of
        VUndefined \<Rightarrow> ''undefined''
      | VNull \<Rightarrow> ''object''
      | VBool b \<Rightarrow> ''boolean''
      | VNum n \<Rightarrow> ''number''
      | VStr s \<Rightarrow> ''string''
      | _ \<Rightarrow> ''object'')"

subsection \<open>Equality and comparison\<close>

definition num_eq :: "jsnum \<Rightarrow> jsnum \<Rightarrow> bool" where
  \<comment> \<open>Number::equal: NaN equals nothing\<close>
  "num_eq a b = (a \<noteq> NaN \<and> a = b)"

fun strict_eq :: "jsval \<Rightarrow> jsval \<Rightarrow> bool" where
  \<comment> \<open>IsStrictlyEqual, the operator \<^verbatim>\<open>===\<close>\<close>
  "strict_eq VUndefined VUndefined = True"
| "strict_eq VNull VNull = True"
| "strict_eq (VBool a) (VBool b) = (a = b)"
| "strict_eq (VNum a) (VNum b) = num_eq a b"
| "strict_eq (VStr a) (VStr b) = (a = b)"
| "strict_eq (VObj i ps p) (VObj j qs q) = (i = j)"
| "strict_eq (VArr i xs) (VArr j ys) = (i = j)"
| "strict_eq _ _ = False"

definition same_value_zero :: "jsval \<Rightarrow> jsval \<Rightarrow> bool" where
  \<comment> \<open>SameValueZero, the comparison of \<^verbatim>\<open>Array.prototype.includes\<close>\<close>
  "same_value_zero x y =
     (case (x, y) of (VNum a, VNum b) \<Rightarrow> a = b | _ \<Rightarrow> strict_eq x y)"

definition array_includes :: "jsval \<Rightarrow> jsval \<Rightarrow> bool" where
  \<comment> \<open>\<^verbatim>\<open>obj.includes(arg)\<close> on an array\<close>
  "array_includes obj arg =
     (case obj of VArr i xs \<Rightarrow> list_ex (\<lambda>x. same_value_zero x arg) xs | _ \<Rightarrow> False)"

definition same_type :: "jsval \<Rightarrow> jsval \<Rightarrow> bool" where
  "same_type x y = (if is_object x \<or> is_object y then is_object x \<and> is_object y
                    else if x = VNull \<or> y = VNull then x = y
                    else typeof x = typeof y)"

definition is_nullish :: "jsval \<Rightarrow> bool" where
  "is_nullish v = (v = VUndefined \<or> v = VNull)"

definition loose_eq :: "jsval \<Rightarrow> jsval \<Rightarrow> error + bool" where
  \<comment> \<open>IsLooselyEqual, the operator \<^verbatim>\<open>==\<close>: values of one type compare strictly, null
      and undefined equal each other only, and in every other pair an object is
      converted to a primitive and values of two types compare as numbers\<close>
  "loose_eq x y =
     (if same_type x y then Inr (strict_eq x y)
      else if is_nullish x \<and> is_nullish y then Inr True
      else if is_nullish x \<or> is_nullish y then Inr False
      else
        (case to_primitive x of
           Inl e \<Rightarrow> Inl e
         | Inr px \<Rightarrow>
             (case to_primitive y of
                Inl e \<Rightarrow> Inl e
              | Inr py \<Rightarrow>
                  Inr (if same_type px py then strict_eq px py
                       else num_eq (to_number px) (to_number py)))))"

fun str_less :: "string \<Rightarrow> string \<Rightarrow> bool" where
  \<comment> \<open>strings compare by code units; a proper prefix is less\<close>
  "str_less a [] = False"
| "str_less [] (b # bs) = True"
| "str_less (a # as) (b # bs) = (if a = b then str_less as bs else code_unit a < code_unit b)"

fun num_less :: "jsnum \<Rightarrow> jsnum \<Rightarrow> bool option" where
  \<comment> \<open>Number::lessThan: undefined (\<open>None\<close>) when an operand is NaN\<close>
  "num_less NaN b = None"
| "num_less a NaN = None"
| "num_less (Fin a) (Fin b) = Some (a < b)"
| "num_less (Fin a) PosInf = Some True"
| "num_less (Fin a) NegInf = Some False"
| "num_less PosInf b = Some False"
| "num_less NegInf NegInf = Some False"
| "num_less NegInf b = Some True"

definition less_than :: "jsval \<Rightarrow> jsval \<Rightarrow> error + bool option" where
  \<comment> \<open>IsLessThan: both operands are converted to primitives; two strings compare as
      strings, anything else as numbers. Both conversions throw the same exception,
      so their order is not kept.\<close>
  "less_than x y =
     (case to_primitive x of
        Inl e \<Rightarrow> Inl e
      | Inr px \<Rightarrow>
          (case to_primitive y of
             Inl e \<Rightarrow> Inl e
           | Inr py \<Rightarrow>
               Inr (case (px, py) of
                      (VStr a, VStr b) \<Rightarrow> Some (str_less a b)
                    | _ \<Rightarrow> num_less (to_number px) (to_number py))))"

section \<open>The lexer\<close>

datatype TokenType =
    T_identifier | T_number | T_string | T_boolean | T_null | T_operator | T_dot
  | T_lparen | T_rparen | T_lbracket | T_rbracket | T_comma | T_eof

datatype Token = Token (token_type: TokenType) (token_value: string)

definition quoted :: "string \<Rightarrow> string" where
  \<comment> \<open>the text between single quotes, as the messages show it\<close>
  "quoted s = [CHR 0x27] @ s @ [CHR 0x27]"

definition is_number_char :: "char \<Rightarrow> bool" where
  \<comment> \<open>\<^verbatim>\<open>/[\\d.]/\<close>\<close>
  "is_number_char c = (is_digit c \<or> c = CHR ''.'')"

definition is_ident_start :: "char \<Rightarrow> bool" where
  \<comment> \<open>\<^verbatim>\<open>/[a-zA-Z_$]/\<close>\<close>
  "is_ident_start c =
     (in_range CHR ''a'' CHR ''z'' c \<or> in_range CHR ''A'' CHR ''Z'' c \<or> c = CHR ''_'' \<or> c = CHR ''$'')"

definition is_ident_char :: "char \<Rightarrow> bool" where
  \<comment> \<open>\<^verbatim>\<open>/[a-zA-Z0-9_$]/\<close>\<close>
  "is_ident_char c = (is_ident_start c \<or> is_digit c)"

definition char_at :: "string \<Rightarrow> nat \<Rightarrow> char \<Rightarrow> bool" where
  \<comment> \<open>\<^verbatim>\<open>expression[i + 1 + k] === c\<close>, false past the end\<close>
  "char_at cs k c = (k < length cs \<and> cs ! k = c)"

definition add_char :: "char \<Rightarrow> string \<times> string \<times> nat \<Rightarrow> string \<times> string \<times> nat" where
  \<comment> \<open>\<^verbatim>\<open>str += c\<close>, on the result of the passes after it\<close>
  "add_char c r = (c # fst r, snd r)"

fun scan_string :: "char \<Rightarrow> string \<Rightarrow> nat \<Rightarrow> string \<times> string \<times> nat" where
  \<comment> \<open>the loop of a string literal, from the character after the opening quote: the
      text, the input left at the closing quote or the end, and the index there\<close>
  "scan_string quote [] i = ([], [], i)"
| "scan_string quote (c # cs) i =
     (if c = quote then ([], c # cs, i)
      else if c = CHR 0x5C then
        (case cs of
           [] \<Rightarrow> ([], [], i + 2)
         | d # ds \<Rightarrow> add_char d (scan_string quote ds (i + 2)))
      else add_char c (scan_string quote cs (i + 1)))"

definition lex_step :: "char \<Rightarrow> string \<Rightarrow> nat \<Rightarrow> error + Token option \<times> string \<times> nat" where
  \<comment> \<open>one pass of the main loop at index \<open>i\<close>, with \<open>ch\<close> the character there and \<open>cs\<close>
      the input after it: the token pushed (none for whitespace), the input left and
      the new index\<close>
  "lex_step ch cs i =
     (if is_space ch then Inr (None, cs, i + 1)
      else if ch = CHR 0x27 \<or> ch = CHR 0x22 then
        (case scan_string ch cs (i + 1) of
           (str, rest, j) \<Rightarrow> Inr (Some (Token T_string str), drop 1 rest, j + 1))
      else if is_digit ch then
        (let num = takeWhile is_number_char (ch # cs)
         in Inr (Some (Token T_number num), dropWhile is_number_char (ch # cs), i + length num))
      else if is_ident_start ch then
        (let ident = takeWhile is_ident_char (ch # cs)
         in Inr (Some (if ident = ''true'' \<or> ident = ''false'' then Token T_boolean ident
                       else if ident = ''null'' then Token T_null ident
                       else Token T_identifier ident),
                 dropWhile is_ident_char (ch # cs), i + length ident))
      else if ch = CHR ''='' \<and> char_at cs 0 CHR ''='' \<and> char_at cs 1 CHR ''='' then
        Inr (Some (Token T_operator ''===''), drop 2 cs, i + 3)
      else if ch = CHR ''!'' \<and> char_at cs 0 CHR ''='' \<and> char_at cs 1 CHR ''='' then
        Inr (Some (Token T_operator ''!==''), drop 2 cs, i + 3)
      else if ch = CHR ''='' \<and> char_at cs 0 CHR ''='' then
        Inr (Some (Token T_operator ''==''), drop 1 cs, i + 2)
      else if ch = CHR ''!'' \<and> char_at cs 0 CHR ''='' then
        Inr (Some (Token T_operator ''!=''), drop 1 cs, i + 2)
      else if ch = CHR ''>'' \<and> char_at cs 0 CHR ''='' then
        Inr (Some (Token T_operator ''>=''), drop 1 cs, i + 2)
      else if ch = CHR ''<'' \<and> char_at cs 0 CHR ''='' then
        Inr (Some (Token T_operator ''<=''), drop 1 cs, i + 2)
      else if ch = CHR ''&'' \<and> char_at cs 0 CHR ''&'' then
        Inr (Some (Token T_operator ''&&''), drop 1 cs, i + 2)
      else if ch = CHR ''|'' \<and> char_at cs 0 CHR ''|'' then
        Inr (Some (Token T_operator ''||''), drop 1 cs, i + 2)
      else if ch = CHR ''!'' then Inr (Some (Token T_operator ''!''), cs, i + 1)
      else if ch = CHR ''>'' \<or> ch = CHR ''<'' then Inr (Some (Token T_operator [ch]), cs, i + 1)
      else if ch = CHR ''.'' then Inr (Some (Token T_dot ''.''), cs, i + 1)
      else if ch = CHR ''('' then Inr (Some (Token T_lparen ''(''), cs, i + 1)
      else if ch = CHR '')'' then Inr (Some (Token T_rparen '')''), cs, i + 1)
      else if ch = CHR ''['' then Inr (Some (Token T_lbracket ''[''), cs, i + 1)
      else if ch = CHR '']'' then Inr (Some (Token T_rbracket '']''), cs, i + 1)
      else if ch = CHR '','' then Inr (Some (Token T_comma '',''), cs, i + 1)
      else Inl (ExpressionSyntaxError
                  (''Unexpected character: '' @ quoted [ch] @ '' at position '' @ digits_of (int i))))"

lemma scan_string_length: "length (fst (snd (scan_string quote cs i))) \<le> length cs"
  by (induction quote cs i rule: scan_string.induct)
     (simp_all add: add_char_def le_SucI split: list.split)

lemma lex_step_bound:
  "case lex_step ch cs i of Inl e \<Rightarrow> True | Inr (tok, rest, j) \<Rightarrow> length rest \<le> length cs"
proof -
  have str: "length (fst (snd (scan_string q cs (Suc i)))) - Suc 0 \<le> length cs" for q
    using scan_string_length [of q cs "Suc i"] by simp
  have num: "length (dropWhile is_number_char cs) \<le> length cs"
    by (rule length_dropWhile_le)
  have ident: "length (dropWhile is_ident_char cs) \<le> length cs"
    by (rule length_dropWhile_le)
  show ?thesis
    unfolding lex_step_def Let_def
    using str num ident
    by (simp add: is_number_char_def is_ident_char_def case_prod_beta)
qed

lemma lex_step_shorter:
  assumes "lex_step ch cs i = Inr (tok, rest, j)"
  shows "length rest \<le> length cs"
  using lex_step_bound [where ch = ch and cs = cs and i = i] assms by simp

function tokenize_at :: "string \<Rightarrow> nat \<Rightarrow> error + Token list" where
  \<comment> \<open>the main loop from index \<open>i\<close>, on the input from \<open>i\<close> on\<close>
  "tokenize_at [] i = Inr [Token T_eof []]"
| "tokenize_at (ch # cs) i =
     (case lex_step ch cs i of
        Inl e \<Rightarrow> Inl e
      | Inr (tok, rest, j) \<Rightarrow>
          (case tokenize_at rest j of
             Inl e \<Rightarrow> Inl e
           | Inr tokens \<Rightarrow> Inr (case tok of None \<Rightarrow> tokens | Some t \<Rightarrow> t # tokens)))"
  by pat_completeness auto
termination
proof (relation "measure (\<lambda>(cs, i). length cs)", goal_cases)
  case 1
  show ?case by simp
next
  case (2 ch cs i x tok y rest j)
  then have "lex_step ch cs i = Inr (tok, rest, j)"
    by simp
  from lex_step_shorter [OF this] show ?case
    by simp
qed

definition tokenize :: "string \<Rightarrow> error + Token list" where
  "tokenize expression = tokenize_at expression 0"

section \<open>The abstract syntax tree\<close>

datatype litval = LStr string | LNum jsnum | LBool bool | LNull

datatype AstNode =
    Literal litval
  | Identifier string
  | MemberAccess AstNode string
  | ArrayLiteral "AstNode list"
  | MethodCall AstNode string "AstNode list"
  | BinaryOp string AstNode AstNode
  | UnaryOp string AstNode
  | Parenthesized AstNode

section \<open>The parser\<close>

text \<open>
  The class \<^verbatim>\<open>Parser\<close> holds the token array and a position. The model passes the
  tokens from the position on: \<^verbatim>\<open>peek()\<close> is the head of the list, \<^verbatim>\<open>consume()\<close>
  continues with the tail. Reading past the last token gives \<^verbatim>\<open>undefined\<close> in the
  source, and the property read that follows throws a TypeError.

  The methods call each other recursively, so each takes fuel: \<open>None\<close> is a run that
  needs more fuel than it was given. \<open>parse\<close> supplies \<open>parse_fuel\<close>, which is enough
  for every token list (\<open>parse_total\<close> below).
\<close>

definition token_type_name :: "TokenType \<Rightarrow> string" where
  "token_type_name ty =
     (case ty of
        T_identifier \<Rightarrow> ''identifier'' | T_number \<Rightarrow> ''number'' | T_string \<Rightarrow> ''string''
      | T_boolean \<Rightarrow> ''boolean'' | T_null \<Rightarrow> ''null'' | T_operator \<Rightarrow> ''operator''
      | T_dot \<Rightarrow> ''dot'' | T_lparen \<Rightarrow> ''lparen'' | T_rparen \<Rightarrow> ''rparen''
      | T_lbracket \<Rightarrow> ''lbracket'' | T_rbracket \<Rightarrow> ''rbracket'' | T_comma \<Rightarrow> ''comma''
      | T_eof \<Rightarrow> ''eof'')"

definition past_end :: error where
  "past_end = TypeError ''Cannot read properties of undefined (reading type)''"

fun consume :: "TokenType \<Rightarrow> Token list \<Rightarrow> error + Token \<times> Token list" where
  \<comment> \<open>\<^verbatim>\<open>consume(expectedType)\<close>\<close>
  "consume expectedType [] = Inl past_end"
| "consume expectedType (token # rest) =
     (if token_type token \<noteq> expectedType
      then Inl (ExpressionSyntaxError
                  (''Expected '' @ token_type_name expectedType @ '', got ''
                   @ token_type_name (token_type token)
                   @ '' ('' @ quoted (token_value token) @ '')''))
      else Inr (token, rest))"

definition compOps :: "string list" where
  "compOps = [''==='', ''!=='', ''=='', ''!='', ''>'', ''<'', ''>='', ''<='']"

definition is_operator :: "Token \<Rightarrow> string \<Rightarrow> bool" where
  \<comment> \<open>\<^verbatim>\<open>peek().type === 'operator' && peek().value === op\<close>\<close>
  "is_operator t op = (token_type t = T_operator \<and> token_value t = op)"

function (sequential) parseOr :: "nat \<Rightarrow> Token list \<Rightarrow> (error + AstNode \<times> Token list) option"
  and parseOr_loop :: "nat \<Rightarrow> AstNode \<Rightarrow> Token list \<Rightarrow> (error + AstNode \<times> Token list) option"
  and parseAnd :: "nat \<Rightarrow> Token list \<Rightarrow> (error + AstNode \<times> Token list) option"
  and parseAnd_loop :: "nat \<Rightarrow> AstNode \<Rightarrow> Token list \<Rightarrow> (error + AstNode \<times> Token list) option"
  and parseComparison :: "nat \<Rightarrow> Token list \<Rightarrow> (error + AstNode \<times> Token list) option"
  and parseComparison_loop ::
    "nat \<Rightarrow> AstNode \<Rightarrow> Token list \<Rightarrow> (error + AstNode \<times> Token list) option"
  and parseUnary :: "nat \<Rightarrow> Token list \<Rightarrow> (error + AstNode \<times> Token list) option"
  and parsePostfix :: "nat \<Rightarrow> Token list \<Rightarrow> (error + AstNode \<times> Token list) option"
  and parsePostfix_loop ::
    "nat \<Rightarrow> AstNode \<Rightarrow> Token list \<Rightarrow> (error + AstNode \<times> Token list) option"
  and parsePrimary :: "nat \<Rightarrow> Token list \<Rightarrow> (error + AstNode \<times> Token list) option"
  and parseList ::
    "nat \<Rightarrow> TokenType \<Rightarrow> Token list \<Rightarrow> (error + AstNode list \<times> Token list) option"
  and parseList_loop :: "nat \<Rightarrow> Token list \<Rightarrow> (error + AstNode list \<times> Token list) option"
where
  "parseOr 0 ts = None"
| "parseOr (Suc n) ts =
     (case parseAnd n ts of
        None \<Rightarrow> None
      | Some (Inl e) \<Rightarrow> Some (Inl e)
      | Some (Inr (left, rest)) \<Rightarrow> parseOr_loop n left rest)"
| "parseOr_loop 0 left ts = None"
| "parseOr_loop (Suc n) left ts =
     (case ts of
        [] \<Rightarrow> Some (Inl past_end)
      | t # rest \<Rightarrow>
          if is_operator t ''||'' then
            (case parseAnd n rest of
               None \<Rightarrow> None
             | Some (Inl e) \<Rightarrow> Some (Inl e)
             | Some (Inr (right, rest1)) \<Rightarrow> parseOr_loop n (BinaryOp ''||'' left right) rest1)
          else Some (Inr (left, ts)))"
| "parseAnd 0 ts = None"
| "parseAnd (Suc n) ts =
     (case parseComparison n ts of
        None \<Rightarrow> None
      | Some (Inl e) \<Rightarrow> Some (Inl e)
      | Some (Inr (left, rest)) \<Rightarrow> parseAnd_loop n left rest)"
| "parseAnd_loop 0 left ts = None"
| "parseAnd_loop (Suc n) left ts =
     (case ts of
        [] \<Rightarrow> Some (Inl past_end)
      | t # rest \<Rightarrow>
          if is_operator t ''&&'' then
            (case parseComparison n rest of
               None \<Rightarrow> None
             | Some (Inl e) \<Rightarrow> Some (Inl e)
             | Some (Inr (right, rest1)) \<Rightarrow> parseAnd_loop n (BinaryOp ''&&'' left right) rest1)
          else Some (Inr (left, ts)))"
| "parseComparison 0 ts = None"
| "parseComparison (Suc n) ts =
     (case parseUnary n ts of
        None \<Rightarrow> None
      | Some (Inl e) \<Rightarrow> Some (Inl e)
      | Some (Inr (left, rest)) \<Rightarrow> parseComparison_loop n left rest)"
| "parseComparison_loop 0 left ts = None"
| "parseComparison_loop (Suc n) left ts =
     (case ts of
        [] \<Rightarrow> Some (Inl past_end)
      | t # rest \<Rightarrow>
          if token_type t = T_operator \<and> token_value t \<in> set compOps then
            (case parseUnary n rest of
               None \<Rightarrow> None
             | Some (Inl e) \<Rightarrow> Some (Inl e)
             | Some (Inr (right, rest1)) \<Rightarrow>
                 parseComparison_loop n (BinaryOp (token_value t) left right) rest1)
          else Some (Inr (left, ts)))"
| "parseUnary 0 ts = None"
| "parseUnary (Suc n) ts =
     (case ts of
        [] \<Rightarrow> Some (Inl past_end)
      | t # rest \<Rightarrow>
          if is_operator t ''!'' then
            (case parseUnary n rest of
               None \<Rightarrow> None
             | Some (Inl e) \<Rightarrow> Some (Inl e)
             | Some (Inr (operand, rest1)) \<Rightarrow> Some (Inr (UnaryOp ''!'' operand, rest1)))
          else parsePostfix n ts)"
| "parsePostfix 0 ts = None"
| "parsePostfix (Suc n) ts =
     (case parsePrimary n ts of
        None \<Rightarrow> None
      | Some (Inl e) \<Rightarrow> Some (Inl e)
      | Some (Inr (node, rest)) \<Rightarrow> parsePostfix_loop n node rest)"
| "parsePostfix_loop 0 node ts = None"
| "parsePostfix_loop (Suc n) node ts =
     (case ts of
        [] \<Rightarrow> Some (Inl past_end)
      | t # rest \<Rightarrow>
          if token_type t = T_dot then
            (case consume T_identifier rest of
               Inl e \<Rightarrow> Some (Inl e)
             | Inr (prop, rest1) \<Rightarrow>
                 (case rest1 of
                    [] \<Rightarrow> Some (Inl past_end)
                  | t1 # rest2 \<Rightarrow>
                      if token_type t1 = T_lparen then
                        (case parseList n T_rparen rest2 of
                           None \<Rightarrow> None
                         | Some (Inl e) \<Rightarrow> Some (Inl e)
                         | Some (Inr (args, rest3)) \<Rightarrow>
                             (case consume T_rparen rest3 of
                                Inl e \<Rightarrow> Some (Inl e)
                              | Inr (close, rest4) \<Rightarrow>
                                  parsePostfix_loop n
                                    (MethodCall node (token_value prop) args) rest4))
                      else parsePostfix_loop n (MemberAccess node (token_value prop)) rest1))
          else Some (Inr (node, ts)))"
| "parsePrimary 0 ts = None"
| "parsePrimary (Suc n) ts =
     (case ts of
        [] \<Rightarrow> Some (Inl past_end)
      | token # rest \<Rightarrow>
          (case token_type token of
             T_string \<Rightarrow> Some (Inr (Literal (LStr (token_value token)), rest))
           | T_number \<Rightarrow>
               Some (Inr (Literal (LNum (string_to_number (token_value token))), rest))
           | T_boolean \<Rightarrow> Some (Inr (Literal (LBool (token_value token = ''true'')), rest))
           | T_null \<Rightarrow> Some (Inr (Literal LNull, rest))
           | T_identifier \<Rightarrow> Some (Inr (Identifier (token_value token), rest))
           | T_lbracket \<Rightarrow>
               (case parseList n T_rbracket rest of
                  None \<Rightarrow> None
                | Some (Inl e) \<Rightarrow> Some (Inl e)
                | Some (Inr (elements, rest1)) \<Rightarrow>
                    (case consume T_rbracket rest1 of
                       Inl e \<Rightarrow> Some (Inl e)
                     | Inr (close, rest2) \<Rightarrow> Some (Inr (ArrayLiteral elements, rest2))))
           | T_lparen \<Rightarrow>
               (case parseOr n rest of
                  None \<Rightarrow> None
                | Some (Inl e) \<Rightarrow> Some (Inl e)
                | Some (Inr (expr, rest1)) \<Rightarrow>
                    (case consume T_rparen rest1 of
                       Inl e \<Rightarrow> Some (Inl e)
                     | Inr (close, rest2) \<Rightarrow> Some (Inr (Parenthesized expr, rest2))))
           | _ \<Rightarrow>
               Some (Inl (ExpressionSyntaxError
                            (''Unexpected token: '' @ quoted (token_value token))))))"
| "parseList 0 closing ts = None"
| "parseList (Suc n) closing ts =
     (case ts of
        [] \<Rightarrow> Some (Inl past_end)
      | t # rest \<Rightarrow>
          if token_type t \<noteq> closing then
            (case parseOr n ts of
               None \<Rightarrow> None
             | Some (Inl e) \<Rightarrow> Some (Inl e)
             | Some (Inr (first, rest1)) \<Rightarrow>
                 (case parseList_loop n rest1 of
                    None \<Rightarrow> None
                  | Some (Inl e) \<Rightarrow> Some (Inl e)
                  | Some (Inr (more, rest2)) \<Rightarrow> Some (Inr (first # more, rest2))))
          else Some (Inr ([], ts)))"
| "parseList_loop 0 ts = None"
| "parseList_loop (Suc n) ts =
     (case ts of
        [] \<Rightarrow> Some (Inl past_end)
      | t # rest \<Rightarrow>
          if token_type t = T_comma then
            (case parseOr n rest of
               None \<Rightarrow> None
             | Some (Inl e) \<Rightarrow> Some (Inl e)
             | Some (Inr (item, rest1)) \<Rightarrow>
                 (case parseList_loop n rest1 of
                    None \<Rightarrow> None
                  | Some (Inl e) \<Rightarrow> Some (Inl e)
                  | Some (Inr (more, rest2)) \<Rightarrow> Some (Inr (item # more, rest2))))
          else Some (Inr ([], ts)))"
  by pat_completeness auto
termination
  by (relation "measure
        (case_sum
          (case_sum (case_sum fst (case_sum fst fst)) (case_sum fst (case_sum fst fst)))
          (case_sum (case_sum fst (case_sum fst fst)) (case_sum fst (case_sum fst fst))))")
     simp_all

definition parse_fuel :: "Token list \<Rightarrow> nat" where
  "parse_fuel tokens = 16 * length tokens + 16"

definition parse :: "Token list \<Rightarrow> (error + AstNode) option" where
  "parse tokens =
     (case parseOr (parse_fuel tokens) tokens of
        None \<Rightarrow> None
      | Some (Inl e) \<Rightarrow> Some (Inl e)
      | Some (Inr (node, rest)) \<Rightarrow>
          (case rest of
             [] \<Rightarrow> Some (Inl past_end)
           | t # ts \<Rightarrow>
               if token_type t \<noteq> T_eof
               then Some (Inl (ExpressionSyntaxError (''Unexpected token: '' @ quoted (token_value t))))
               else Some (Inr node)))"

section \<open>The evaluator\<close>

fun literal_value :: "litval \<Rightarrow> jsval" where
  "literal_value (LStr s) = VStr s"
| "literal_value (LNum n) = VNum n"
| "literal_value (LBool b) = VBool b"
| "literal_value LNull = VNull"

text \<open>
  \<open>evaluateNode node context h\<close>: \<open>h\<close> is the next free identity. An array literal
  creates an array, which takes the identity \<open>h\<close>; the result carries the next free
  identity after the evaluation. A thrown exception is \<open>Inl\<close>.
\<close>

fun evaluateNode :: "AstNode \<Rightarrow> jsval \<Rightarrow> nat \<Rightarrow> error + jsval \<times> nat"
  and evaluateElements :: "AstNode list \<Rightarrow> jsval \<Rightarrow> nat \<Rightarrow> error + jsval list \<times> nat"
where
  "evaluateNode (Literal v) context h = Inr (literal_value v, h)"
| "evaluateNode (Identifier name) context h =
     (if \<not> has_own context name
      then Inl (ExpressionSecurityError (''Access to '' @ quoted name @ '' is not allowed''))
      else Inr (js_get context name, h))"
| "evaluateNode (MemberAccess object property) context h =
     (case evaluateNode object context h of
        Inl e \<Rightarrow> Inl e
      | Inr (obj, h1) \<Rightarrow>
          if strict_eq obj VNull \<or> typeof obj \<noteq> ''object'' then Inr (VUndefined, h1)
          else if \<not> has_own obj property
          then Inl (ExpressionSecurityError (''Access to '' @ quoted property @ '' is not allowed''))
          else Inr (js_get obj property, h1))"
| "evaluateNode (ArrayLiteral elements) context h =
     (case evaluateElements elements context (Suc h) of
        Inl e \<Rightarrow> Inl e
      | Inr (vs, h1) \<Rightarrow> Inr (VArr h vs, h1))"
| "evaluateNode (MethodCall object method args) context h =
     (case evaluateNode object context h of
        Inl e \<Rightarrow> Inl e
      | Inr (obj, h1) \<Rightarrow>
          if method = ''includes'' then
            (if \<not> is_array obj
             then Inl (ExpressionSecurityError (quoted ''includes'' @ '' can only be called on arrays''))
             else (case args of
                     [] \<Rightarrow> Inl past_end
                   | a # rest \<Rightarrow>
                       (case evaluateNode a context h1 of
                          Inl e \<Rightarrow> Inl e
                        | Inr (arg, h2) \<Rightarrow> Inr (VBool (array_includes obj arg), h2))))
          else Inl (ExpressionSecurityError (''Method '' @ quoted method @ '' is not allowed'')))"
| "evaluateNode (BinaryOp operator left right) context h =
     (if operator = ''&&'' then
        (case evaluateNode left context h of
           Inl e \<Rightarrow> Inl e
         | Inr (l, h1) \<Rightarrow> if to_boolean l then evaluateNode right context h1 else Inr (l, h1))
      else if operator = ''||'' then
        (case evaluateNode left context h of
           Inl e \<Rightarrow> Inl e
         | Inr (l, h1) \<Rightarrow> if to_boolean l then Inr (l, h1) else evaluateNode right context h1)
      else
        (case evaluateNode left context h of
           Inl e \<Rightarrow> Inl e
         | Inr (l, h1) \<Rightarrow>
             (case evaluateNode right context h1 of
                Inl e \<Rightarrow> Inl e
              | Inr (r, h2) \<Rightarrow>
                  if operator = ''==='' then Inr (VBool (strict_eq l r), h2)
                  else if operator = ''!=='' then Inr (VBool (\<not> strict_eq l r), h2)
                  else if operator = ''=='' then
                    (case loose_eq l r of Inl e \<Rightarrow> Inl e | Inr b \<Rightarrow> Inr (VBool b, h2))
                  else if operator = ''!='' then
                    (case loose_eq l r of Inl e \<Rightarrow> Inl e | Inr b \<Rightarrow> Inr (VBool (\<not> b), h2))
                  else if operator = ''>'' then
                    (case less_than r l of
                       Inl e \<Rightarrow> Inl e
                     | Inr b \<Rightarrow> Inr (VBool (b = Some True), h2))
                  else if operator = ''<'' then
                    (case less_than l r of
                       Inl e \<Rightarrow> Inl e
                     | Inr b \<Rightarrow> Inr (VBool (b = Some True), h2))
                  else if operator = ''>='' then
                    (case less_than l r of
                       Inl e \<Rightarrow> Inl e
                     | Inr b \<Rightarrow> Inr (VBool (b = Some False), h2))
                  else if operator = ''<='' then
                    (case less_than r l of
                       Inl e \<Rightarrow> Inl e
                     | Inr b \<Rightarrow> Inr (VBool (b = Some False), h2))
                  else Inl (ExpressionSyntaxError (''Unknown operator: '' @ quoted operator)))))"
| "evaluateNode (UnaryOp operator operand) context h =
     (case evaluateNode operand context h of
        Inl e \<Rightarrow> Inl e
      | Inr (v, h1) \<Rightarrow>
          if operator = ''!'' then Inr (VBool (\<not> to_boolean v), h1)
          else Inl (ExpressionSyntaxError (''Unknown unary operator: '' @ quoted operator)))"
| "evaluateNode (Parenthesized expression) context h = evaluateNode expression context h"
| "evaluateElements [] context h = Inr ([], h)"
| "evaluateElements (el # els) context h =
     (case evaluateNode el context h of
        Inl e \<Rightarrow> Inl e
      | Inr (v, h1) \<Rightarrow>
          (case evaluateElements els context h1 of
             Inl e \<Rightarrow> Inl e
           | Inr (vs, h2) \<Rightarrow> Inr (v # vs, h2)))"

section \<open>The public functions\<close>

definition compileExpression ::
  "string \<Rightarrow> (error + (jsval \<Rightarrow> nat \<Rightarrow> error + jsval \<times> nat)) option" where
  \<comment> \<open>the result is the evaluator for the parsed expression\<close>
  "compileExpression expression =
     (case tokenize expression of
        Inl e \<Rightarrow> Some (Inl e)
      | Inr tokens \<Rightarrow>
          (case parse tokens of
             None \<Rightarrow> None
           | Some (Inl e) \<Rightarrow> Some (Inl e)
           | Some (Inr ast) \<Rightarrow> Some (Inr (\<lambda>context h. evaluateNode ast context h))))"

definition safeEvaluateExpression :: "string \<Rightarrow> jsval \<Rightarrow> nat \<Rightarrow> (jsval \<times> nat) option" where
  \<comment> \<open>\<^verbatim>\<open>try { ... } catch { return false; }\<close>\<close>
  "safeEvaluateExpression expression context h =
     (case compileExpression expression of
        None \<Rightarrow> None
      | Some (Inl e) \<Rightarrow> Some (VBool False, h)
      | Some (Inr evaluator) \<Rightarrow>
          (case evaluator context h of
             Inl e \<Rightarrow> Some (VBool False, h)
           | Inr r \<Rightarrow> Some r))"

subsection \<open>evaluateShowWhen\<close>

text \<open>
  Modelled from the spec: \<^verbatim>\<open>evaluateShowWhen\<close> is exported by the package (its tests and
  its README call it), but the source file that defines it is not part of this
  development. The specification: an empty or absent list gives true; otherwise the
  result is the logical OR of \<^verbatim>\<open>safeEvaluateExpression\<close> over the entries, in list
  order, stopping at the first truthy result.
\<close>

fun evaluateEntries :: "string list \<Rightarrow> jsval \<Rightarrow> nat \<Rightarrow> bool option" where
  "evaluateEntries [] context h = Some False"
| "evaluateEntries (expression # expressions) context h =
     (case safeEvaluateExpression expression context h of
        None \<Rightarrow> None
      | Some (v, h1) \<Rightarrow> if to_boolean v then Some True else evaluateEntries expressions context h)"

definition evaluateShowWhen :: "string list option \<Rightarrow> jsval \<Rightarrow> nat \<Rightarrow> bool option" where
  \<comment> \<open>Modelled from the spec: \<open>None\<close> is the absent (undefined) list\<close>
  "evaluateShowWhen expressions context h =
     (case expressions of
        None \<Rightarrow> Some True
      | Some es \<Rightarrow> if es = [] then Some True else evaluateEntries es context h)"

definition truthy :: "string \<Rightarrow> jsval \<Rightarrow> nat \<Rightarrow> bool" where
  \<comment> \<open>the entry's \<^verbatim>\<open>safeEvaluateExpression\<close> result is truthy\<close>
  "truthy expression context h =
     (case safeEvaluateExpression expression context h of
        None \<Rightarrow> False
      | Some (v, h1) \<Rightarrow> to_boolean v)"


section \<open>Reference definitions\<close>



section \<open>Properties of the lexer and the parser\<close>

lemma consume_Inr: "consume ty ts = Inr (t, rest) \<Longrightarrow> ts = t # rest"
  by (cases ts) (auto split: if_splits)

lemma seq_Inr [simp]:
  "((case m of None \<Rightarrow> None | Some (Inl e) \<Rightarrow> Some (Inl e) | Some (Inr (x, rest)) \<Rightarrow> f x rest) = Some (Inr r))
     = (\<exists>x rest. m = Some (Inr (x, rest)) \<and> f x rest = Some (Inr r))"
  by (auto split: option.splits sum.splits)

lemma consume_seq_Inr:
  "((case consume ty ts of Inl e \<Rightarrow> Some (Inl e) | Inr (tok, rest) \<Rightarrow> g tok rest) = Some (Inr r))
     = (\<exists>tok rest. ts = tok # rest \<and> token_type tok = ty \<and> g tok rest = Some (Inr r))"
  by (cases ts) (auto split: sum.splits)

lemma consume_case:
  "(case consume ty ts of Inl e \<Rightarrow> Some (Inl e) | Inr (tok, rest) \<Rightarrow> g tok rest)
     = (case ts of
          [] \<Rightarrow> Some (Inl past_end)
        | tok # rest \<Rightarrow>
            if token_type tok \<noteq> ty
            then Some (Inl (ExpressionSyntaxError
                         (''Expected '' @ token_type_name ty @ '', got ''
                          @ token_type_name (token_type tok)
                          @ '' ('' @ quoted (token_value tok) @ '')'')))
            else g tok rest)"
  by (cases ts) simp_all

lemma parse_progress:
  "(\<forall>ts node rest. parseOr n ts = Some (Inr (node, rest)) \<longrightarrow> length rest < length ts)
 \<and> (\<forall>left ts node rest. parseOr_loop n left ts = Some (Inr (node, rest)) \<longrightarrow> length rest \<le> length ts)
 \<and> (\<forall>ts node rest. parseAnd n ts = Some (Inr (node, rest)) \<longrightarrow> length rest < length ts)
 \<and> (\<forall>left ts node rest. parseAnd_loop n left ts = Some (Inr (node, rest)) \<longrightarrow> length rest \<le> length ts)
 \<and> (\<forall>ts node rest. parseComparison n ts = Some (Inr (node, rest)) \<longrightarrow> length rest < length ts)
 \<and> (\<forall>left ts node rest. parseComparison_loop n left ts = Some (Inr (node, rest)) \<longrightarrow> length rest \<le> length ts)
 \<and> (\<forall>ts node rest. parseUnary n ts = Some (Inr (node, rest)) \<longrightarrow> length rest < length ts)
 \<and> (\<forall>ts node rest. parsePostfix n ts = Some (Inr (node, rest)) \<longrightarrow> length rest < length ts)
 \<and> (\<forall>left ts node rest. parsePostfix_loop n left ts = Some (Inr (node, rest)) \<longrightarrow> length rest \<le> length ts)
 \<and> (\<forall>ts node rest. parsePrimary n ts = Some (Inr (node, rest)) \<longrightarrow> length rest < length ts)
 \<and> (\<forall>closing ts nodes rest. parseList n closing ts = Some (Inr (nodes, rest)) \<longrightarrow> length rest \<le> length ts)
 \<and> (\<forall>ts nodes rest. parseList_loop n ts = Some (Inr (nodes, rest)) \<longrightarrow> length rest \<le> length ts)"
proof (induction n)
  case 0
  show ?case by simp
next
  case (Suc n)
  then have IH_or: "parseOr n ts = Some (Inr (node, rest)) \<Longrightarrow> length rest < length ts"
    and IH_or_loop: "parseOr_loop n left ts = Some (Inr (node, rest)) \<Longrightarrow> length rest \<le> length ts"
    and IH_and: "parseAnd n ts = Some (Inr (node, rest)) \<Longrightarrow> length rest < length ts"
    and IH_and_loop: "parseAnd_loop n left ts = Some (Inr (node, rest)) \<Longrightarrow> length rest \<le> length ts"
    and IH_cmp: "parseComparison n ts = Some (Inr (node, rest)) \<Longrightarrow> length rest < length ts"
    and IH_cmp_loop: "parseComparison_loop n left ts = Some (Inr (node, rest)) \<Longrightarrow> length rest \<le> length ts"
    and IH_unary: "parseUnary n ts = Some (Inr (node, rest)) \<Longrightarrow> length rest < length ts"
    and IH_postfix: "parsePostfix n ts = Some (Inr (node, rest)) \<Longrightarrow> length rest < length ts"
    and IH_postfix_loop: "parsePostfix_loop n left ts = Some (Inr (node, rest)) \<Longrightarrow> length rest \<le> length ts"
    and IH_primary: "parsePrimary n ts = Some (Inr (node, rest)) \<Longrightarrow> length rest < length ts"
    and IH_list: "parseList n closing ts = Some (Inr (nodes, rest)) \<Longrightarrow> length rest \<le> length ts"
    and IH_list_loop: "parseList_loop n ts = Some (Inr (nodes, rest)) \<Longrightarrow> length rest \<le> length ts"
    for ts left node rest closing nodes
    by simp_all
  have or: "parseOr (Suc n) ts = Some (Inr (node, rest)) \<Longrightarrow> length rest < length ts" for ts node rest
    by (fastforce dest: IH_and IH_or_loop)
  have or_loop: "parseOr_loop (Suc n) left ts = Some (Inr (node, rest)) \<Longrightarrow> length rest \<le> length ts"
    for left ts node rest
    by (fastforce dest: IH_and IH_or_loop split: list.splits if_splits)
  have "and": "parseAnd (Suc n) ts = Some (Inr (node, rest)) \<Longrightarrow> length rest < length ts" for ts node rest
    by (fastforce dest: IH_cmp IH_and_loop)
  have and_loop: "parseAnd_loop (Suc n) left ts = Some (Inr (node, rest)) \<Longrightarrow> length rest \<le> length ts"
    for left ts node rest
    by (fastforce dest: IH_cmp IH_and_loop split: list.splits if_splits)
  have cmp: "parseComparison (Suc n) ts = Some (Inr (node, rest)) \<Longrightarrow> length rest < length ts" for ts node rest
    by (fastforce dest: IH_unary IH_cmp_loop)
  have cmp_loop: "parseComparison_loop (Suc n) left ts = Some (Inr (node, rest)) \<Longrightarrow> length rest \<le> length ts"
    for left ts node rest
    by (fastforce dest: IH_unary IH_cmp_loop split: list.splits if_splits)
  have unary: "parseUnary (Suc n) ts = Some (Inr (node, rest)) \<Longrightarrow> length rest < length ts" for ts node rest
    by (fastforce dest: IH_unary IH_postfix split: list.splits if_splits)
  have postfix: "parsePostfix (Suc n) ts = Some (Inr (node, rest)) \<Longrightarrow> length rest < length ts" for ts node rest
    by (fastforce dest: IH_primary IH_postfix_loop)
  have postfix_loop: "parsePostfix_loop (Suc n) left ts = Some (Inr (node, rest)) \<Longrightarrow> length rest \<le> length ts"
    for left ts node rest
    by (auto simp: consume_case neq_Nil_conv split: list.splits if_splits dest!: IH_list IH_postfix_loop)
       (fastforce dest: IH_list IH_postfix_loop)
  have primary: "parsePrimary (Suc n) ts = Some (Inr (node, rest)) \<Longrightarrow> length rest < length ts" for ts node rest
    by (fastforce simp: consume_seq_Inr dest: IH_list IH_or split: list.splits TokenType.splits)
  have list: "parseList (Suc n) closing ts = Some (Inr (nodes, rest)) \<Longrightarrow> length rest \<le> length ts"
    for closing ts nodes rest
    by (fastforce dest: IH_or IH_list_loop split: list.splits if_splits)
  have list_loop: "parseList_loop (Suc n) ts = Some (Inr (nodes, rest)) \<Longrightarrow> length rest \<le> length ts"
    for ts nodes rest
    by (fastforce dest: IH_or IH_list_loop split: list.splits if_splits)
  show ?case
    using or or_loop "and" and_loop cmp cmp_loop unary postfix postfix_loop primary list list_loop
    by blast
qed


lemma parseOr_shorter: "parseOr n ts = Some (Inr (node, rest)) \<Longrightarrow> length rest < length ts"
  using parse_progress [of n] by simp

lemma parseAnd_shorter: "parseAnd n ts = Some (Inr (node, rest)) \<Longrightarrow> length rest < length ts"
  using parse_progress [of n] by simp

lemma parseComparison_shorter:
  "parseComparison n ts = Some (Inr (node, rest)) \<Longrightarrow> length rest < length ts"
  using parse_progress [of n] by simp

lemma parseUnary_shorter: "parseUnary n ts = Some (Inr (node, rest)) \<Longrightarrow> length rest < length ts"
  using parse_progress [of n] by simp

lemma parsePrimary_shorter: "parsePrimary n ts = Some (Inr (node, rest)) \<Longrightarrow> length rest < length ts"
  using parse_progress [of n] by simp

lemma parseList_shorter:
  "parseList n closing ts = Some (Inr (nodes, rest)) \<Longrightarrow> length rest \<le> length ts"
  using parse_progress [of n] by simp

lemma seq_None [simp]:
  "((case m of None \<Rightarrow> None | Some (Inl e) \<Rightarrow> Some (Inl e) | Some (Inr (x, rest)) \<Rightarrow> f x rest) = None)
     = (m = None \<or> (\<exists>x rest. m = Some (Inr (x, rest)) \<and> f x rest = None))"
  by (auto split: option.splits sum.splits)

lemma parse_fuel_enough:
  "(\<forall>ts. parseOr n ts = None \<longrightarrow> n < 6 + 16 * length ts)
 \<and> (\<forall>left ts. parseOr_loop n left ts = None \<longrightarrow> n < 1 + 16 * length ts)
 \<and> (\<forall>ts. parseAnd n ts = None \<longrightarrow> n < 5 + 16 * length ts)
 \<and> (\<forall>left ts. parseAnd_loop n left ts = None \<longrightarrow> n < 1 + 16 * length ts)
 \<and> (\<forall>ts. parseComparison n ts = None \<longrightarrow> n < 4 + 16 * length ts)
 \<and> (\<forall>left ts. parseComparison_loop n left ts = None \<longrightarrow> n < 1 + 16 * length ts)
 \<and> (\<forall>ts. parseUnary n ts = None \<longrightarrow> n < 3 + 16 * length ts)
 \<and> (\<forall>ts. parsePostfix n ts = None \<longrightarrow> n < 2 + 16 * length ts)
 \<and> (\<forall>left ts. parsePostfix_loop n left ts = None \<longrightarrow> n < 1 + 16 * length ts)
 \<and> (\<forall>ts. parsePrimary n ts = None \<longrightarrow> n < 1 + 16 * length ts)
 \<and> (\<forall>closing ts. parseList n closing ts = None \<longrightarrow> n < 7 + 16 * length ts)
 \<and> (\<forall>ts. parseList_loop n ts = None \<longrightarrow> n < 1 + 16 * length ts)"
proof (induction n)
  case 0
  show ?case by simp
next
  case (Suc n)
  then have IH_or: "parseOr n ts = None \<Longrightarrow> n < 6 + 16 * length ts"
    and IH_or_loop: "parseOr_loop n left ts = None \<Longrightarrow> n < 1 + 16 * length ts"
    and IH_and: "parseAnd n ts = None \<Longrightarrow> n < 5 + 16 * length ts"
    and IH_and_loop: "parseAnd_loop n left ts = None \<Longrightarrow> n < 1 + 16 * length ts"
    and IH_cmp: "parseComparison n ts = None \<Longrightarrow> n < 4 + 16 * length ts"
    and IH_cmp_loop: "parseComparison_loop n left ts = None \<Longrightarrow> n < 1 + 16 * length ts"
    and IH_unary: "parseUnary n ts = None \<Longrightarrow> n < 3 + 16 * length ts"
    and IH_postfix: "parsePostfix n ts = None \<Longrightarrow> n < 2 + 16 * length ts"
    and IH_postfix_loop: "parsePostfix_loop n left ts = None \<Longrightarrow> n < 1 + 16 * length ts"
    and IH_primary: "parsePrimary n ts = None \<Longrightarrow> n < 1 + 16 * length ts"
    and IH_list: "parseList n closing ts = None \<Longrightarrow> n < 7 + 16 * length ts"
    and IH_list_loop: "parseList_loop n ts = None \<Longrightarrow> n < 1 + 16 * length ts"
    for ts left closing
    by simp_all
  have or: "parseOr (Suc n) ts = None \<Longrightarrow> Suc n < 6 + 16 * length ts" for ts
    by (fastforce dest: IH_and IH_or_loop parseAnd_shorter)
  have or_loop: "parseOr_loop (Suc n) left ts = None \<Longrightarrow> Suc n < 1 + 16 * length ts" for left ts
    by (fastforce dest: IH_and IH_or_loop parseAnd_shorter split: list.splits if_splits)
  have "and": "parseAnd (Suc n) ts = None \<Longrightarrow> Suc n < 5 + 16 * length ts" for ts
    by (fastforce dest: IH_cmp IH_and_loop parseComparison_shorter)
  have and_loop: "parseAnd_loop (Suc n) left ts = None \<Longrightarrow> Suc n < 1 + 16 * length ts" for left ts
    by (fastforce dest: IH_cmp IH_and_loop parseComparison_shorter split: list.splits if_splits)
  have cmp: "parseComparison (Suc n) ts = None \<Longrightarrow> Suc n < 4 + 16 * length ts" for ts
    by (fastforce dest: IH_unary IH_cmp_loop parseUnary_shorter)
  have cmp_loop: "parseComparison_loop (Suc n) left ts = None \<Longrightarrow> Suc n < 1 + 16 * length ts"
    for left ts
    by (fastforce dest: IH_unary IH_cmp_loop parseUnary_shorter split: list.splits if_splits)
  have unary: "parseUnary (Suc n) ts = None \<Longrightarrow> Suc n < 3 + 16 * length ts" for ts
    by (fastforce dest: IH_unary IH_postfix split: list.splits if_splits)
  have postfix: "parsePostfix (Suc n) ts = None \<Longrightarrow> Suc n < 2 + 16 * length ts" for ts
    by (fastforce dest: IH_primary IH_postfix_loop parsePrimary_shorter)
  have postfix_loop: "parsePostfix_loop (Suc n) left ts = None \<Longrightarrow> Suc n < 1 + 16 * length ts"
    for left ts
    by (auto simp: consume_case neq_Nil_conv split: list.splits if_splits
          dest!: IH_list IH_postfix_loop parseList_shorter)
       (fastforce dest: IH_list IH_postfix_loop parseList_shorter)+
  have primary: "parsePrimary (Suc n) ts = None \<Longrightarrow> Suc n < 1 + 16 * length ts" for ts
    by (auto simp: consume_case neq_Nil_conv split: list.splits TokenType.splits if_splits
          dest!: IH_list IH_or)
  have list: "parseList (Suc n) closing ts = None \<Longrightarrow> Suc n < 7 + 16 * length ts" for closing ts
    by (fastforce dest: IH_or IH_list_loop parseOr_shorter split: list.splits if_splits)
  have list_loop: "parseList_loop (Suc n) ts = None \<Longrightarrow> Suc n < 1 + 16 * length ts" for ts
    by (fastforce dest: IH_or IH_list_loop parseOr_shorter split: list.splits if_splits)
  show ?case
    using or or_loop "and" and_loop cmp cmp_loop unary postfix postfix_loop primary list list_loop
    by blast
qed

lemma parseOr_total: "parseOr (parse_fuel ts) ts \<noteq> None"
  using parse_fuel_enough [of "parse_fuel ts"] by (auto simp: parse_fuel_def)

lemma parse_total: "parse ts \<noteq> None"
  using parseOr_total [of ts] by (auto simp: parse_def split: option.splits sum.splits list.splits)

lemma digit_not_space: "is_number_char c \<Longrightarrow> \<not> is_space c"
  by (auto simp: is_number_char_def is_digit_def in_range_def is_space_def code_unit_def)

lemma dot_not_digit: "\<not> is_digit CHR ''.''"
  by (simp add: is_digit_def in_range_def code_unit_def)

lemma trim_id:
  assumes "list_all (\<lambda>c. \<not> is_space c) s"
  shows "trim s = s"
proof (cases "s = []")
  case True
  then show ?thesis by (simp add: trim_def)
next
  case False
  then have "hd s \<in> set s" and "last s \<in> set s"
    by simp_all
  with assms have "\<not> is_space (hd s)" and "\<not> is_space (last s)"
    by (auto simp: list_all_iff)
  with False have "\<not> is_space (hd s)" and "\<not> is_space (hd (rev s))"
    by (simp_all add: hd_rev)
  then have "dropWhile is_space s = s" and "dropWhile is_space (rev s) = rev s"
    by (simp_all add: dropWhile_eq_self_iff)
  then show ?thesis
    by (simp add: trim_def)
qed

lemma drop_digits_dot:
  assumes "list_all is_number_char s" and "1 \<le> count_list s CHR ''.''"
  shows "\<exists>t. dropWhile is_digit s = CHR ''.'' # t \<and> list_all is_number_char t
             \<and> count_list s CHR ''.'' = Suc (count_list t CHR ''.'')"
  using assms
proof (induction s)
  case Nil
  then show ?case by simp
next
  case (Cons c cs)
  then show ?case
    by (cases "c = CHR ''.''") (auto simp: is_number_char_def dot_not_digit)
qed

lemma multi_dot_NaN:
  assumes d: "is_digit d" and u: "list_all is_number_char u" and dots: "2 \<le> count_list u CHR ''.''"
  shows "string_to_number (d # u) = NaN"
proof -
  have "list_all (\<lambda>c. \<not> is_space c) (d # u)"
    using d u by (auto simp: list_all_iff digit_not_space is_number_char_def)
  then have t: "trim (d # u) = d # u"
    by (rule trim_id)
  from u dots obtain c cs where ucs: "u = c # cs"
    by (cases u) auto
  with u have c: "is_number_char c"
    by simp
  have plain: "d \<noteq> CHR ''+''" "d \<noteq> CHR ''-''" "d \<noteq> CHR ''I''"
    using d by (auto simp: is_digit_def in_range_def code_unit_def)
  have prefix: "c \<noteq> CHR ''x''" "c \<noteq> CHR ''X''" "c \<noteq> CHR ''o''" "c \<noteq> CHR ''O''"
    "c \<noteq> CHR ''b''" "c \<noteq> CHR ''B''"
    using c by (auto simp: is_number_char_def is_digit_def in_range_def code_unit_def)
  have s: "string_to_number (d # u) = unsigned_decimal (d # u)"
    using t plain prefix ucs by (simp add: string_to_number_def)
  from drop_digits_dot [of u] u dots obtain t1
    where r1: "dropWhile is_digit u = CHR ''.'' # t1" and t1: "list_all is_number_char t1"
      and n1: "count_list u CHR ''.'' = Suc (count_list t1 CHR ''.'')"
    by auto
  from drop_digits_dot [of t1] t1 n1 dots obtain t2
    where r2: "dropWhile is_digit t1 = CHR ''.'' # t2"
    by auto
  have "unsigned_decimal (d # u) = NaN"
    using d r1 r2 plain by (simp add: unsigned_decimal_def exponent_part_def)
  with s show ?thesis
    by simp
qed

lemma number_lexeme:
  assumes d: "is_digit d" and u: "list_all is_number_char u"
  shows "tokenize (d # u) = Inr [Token T_number (d # u), Token T_eof []]"
proof -
  have plain: "\<not> is_space d" "d \<noteq> CHR 0x27" "d \<noteq> CHR 0x22"
    using d by (auto simp: is_digit_def in_range_def is_space_def code_unit_def)
  have run: "takeWhile is_number_char u = u" "dropWhile is_number_char u = []"
    using u by (simp_all add: list_all_iff)
  have nd: "is_number_char d"
    using d by (simp add: is_number_char_def)
  have "lex_step d u 0 = Inr (Some (Token T_number (d # u)), [], Suc (length u))"
    by (simp add: lex_step_def plain d nd run)
  then show ?thesis
    by (simp add: tokenize_def)
qed

lemma parse_number:
  "parse [Token T_number s, Token T_eof []] = Some (Inr (Literal (LNum (string_to_number s))))"
  by (simp add: parse_def parse_fuel_def numeral_eq_Suc is_operator_def)

text \<open>
  Claim C10. A run of digits and decimal points that starts with a digit and holds
  more than one decimal point is one number token, and the parser turns it into the
  literal NaN: no syntax error is raised.
\<close>

theorem multi_dot_number:
  assumes "is_digit d" and "list_all is_number_char u" and "2 \<le> count_list u CHR ''.''"
  shows "tokenize (d # u) = Inr [Token T_number (d # u), Token T_eof []]
         \<and> parse [Token T_number (d # u), Token T_eof []] = Some (Inr (Literal (LNum NaN)))"
  using assms by (simp add: number_lexeme parse_number multi_dot_NaN)

theorem multi_dot_number_witness:
  "is_digit CHR ''1'' \<and> list_all is_number_char ''.2.3'' \<and> 2 \<le> count_list ''.2.3'' CHR ''.''
   \<and> tokenize ''1.2.3'' = Inr [Token T_number ''1.2.3'', Token T_eof []]
   \<and> parse [Token T_number ''1.2.3'', Token T_eof []] = Some (Inr (Literal (LNum NaN)))"
proof -
  have h: "is_digit CHR ''1''" "list_all is_number_char ''.2.3''" "2 \<le> count_list ''.2.3'' CHR ''.''"
    by (simp_all add: is_number_char_def is_digit_def in_range_def code_unit_def)
  from multi_dot_number [OF h] h show ?thesis
    by simp
qed

section \<open>Properties of the evaluator\<close>

lemma not_object_iff: "(strict_eq obj VNull \<or> typeof obj \<noteq> ''object'') = (\<not> is_object obj)"
  by (cases obj) (simp_all add: typeof_def is_object_def)

lemma has_own_obj: "has_own (VObj i props proto) k = (map_of props k \<noteq> None)"
  by (simp add: map_of_eq_None_iff)

text \<open>The index keys of an array: decimal numerals, one for each index.\<close>

lemma digits_of_nonempty: "digits_of n \<noteq> []"
  by (subst digits_of.simps) simp

lemma digit_char: "0 \<le> m \<Longrightarrow> m < 10 \<Longrightarrow> is_digit (char_of (48 + m :: int))"
proof -
  assume m: "0 \<le> m" "m < 10"
  have "code_unit (char_of (48 + m)) = nat (of_char (char_of (48 + m)) :: int)"
    unfolding code_unit_def by (simp only: nat_of_char)
  also have "\<dots> = nat (48 + m)"
    using m by simp
  finally have "code_unit (char_of (48 + m)) = nat (48 + m)" .
  moreover have "code_unit CHR ''0'' = 48" "code_unit CHR ''9'' = 57"
    by (simp_all add: code_unit_def)
  moreover have "nat (48 + m) = 48 + nat m" "nat m < 10"
    using m by simp_all
  ultimately show ?thesis
    by (simp add: is_digit_def in_range_def)
qed

lemma digit_char_inj:
  assumes "0 \<le> a" "a < 10" "0 \<le> b" "b < 10" "char_of (48 + a :: int) = char_of (48 + b)"
  shows "a = b"
proof -
  from assms(5) have "(48 + a) mod 256 = (48 + b) mod 256"
    by simp
  with assms(1-4) show ?thesis
    by simp
qed

lemma digits_of_last: "0 \<le> n \<Longrightarrow> last (digits_of n) = char_of (48 + n mod 10)"
  by (subst digits_of.simps) simp

lemma digits_of_inj: "0 \<le> m \<Longrightarrow> 0 \<le> n \<Longrightarrow> digits_of m = digits_of n \<Longrightarrow> m = n"
proof (induction m arbitrary: n rule: digits_of.induct)
  case (1 m)
  have last_eq: "m mod 10 = n mod 10"
  proof -
    from "1.prems" have "char_of (48 + m mod 10) = char_of (48 + n mod 10)"
      using digits_of_last [of m] digits_of_last [of n] by simp
    then show ?thesis
      by (intro digit_char_inj) simp_all
  qed
  show ?case
  proof (cases "m < 10")
    case True
    show ?thesis
    proof (cases "n < 10")
      case True
      with \<open>m < 10\<close> "1.prems" last_eq show ?thesis
        by simp
    next
      case False
      with \<open>m < 10\<close> "1.prems"(3) have "digits_of (n div 10) = []"
        by (subst (asm) digits_of.simps, subst (asm) (2) digits_of.simps) simp
      then show ?thesis
        by (simp add: digits_of_nonempty)
    qed
  next
    case False
    show ?thesis
    proof (cases "n < 10")
      case True
      with \<open>\<not> m < 10\<close> "1.prems"(3) have "digits_of (m div 10) = []"
        by (subst (asm) digits_of.simps, subst (asm) (2) digits_of.simps) simp
      then show ?thesis
        by (simp add: digits_of_nonempty)
    next
      case n: False
      with False "1.prems"(3) have "digits_of (m div 10) = digits_of (n div 10)"
        by (subst (asm) digits_of.simps, subst (asm) (2) digits_of.simps) simp
      with "1.IH" [of "n div 10"] False "1.prems" have "m div 10 = n div 10"
        by simp
      with last_eq show ?thesis
        by (metis div_mult_mod_eq)
    qed
  qed
qed

lemma index_key_eq_iff: "(index_key i = index_key j) = (i = j)"
  using digits_of_inj [of "int i" "int j"] by (auto simp: index_key_def)

lemma index_key_last_digit: "is_digit (last (index_key j))"
  by (simp add: index_key_def digits_of_last digit_char)

lemma index_key_not_length: "index_key j \<noteq> ''length''"
proof
  assume "index_key j = ''length''"
  with index_key_last_digit [of j] show False
    by (simp add: is_digit_def in_range_def code_unit_def)
qed

lemma find_index: "j < n \<Longrightarrow> find (\<lambda>i. i = j) [0..<n] = Some j"
  unfolding find_Some_iff by (rule exI [of _ j]) simp

text \<open>
  Claim C1. Evaluating \<open>Identifier n\<close> against a context object returns the value of
  the own property \<open>n\<close> when the context has one, whatever its prototype holds, and
  otherwise fails with the security error that names \<open>n\<close>: an identifier absent from
  the context never evaluates to undefined.
\<close>

theorem identifier_lookup:
  "evaluateNode (Identifier n) (VObj i props proto) h =
     (case map_of props n of
        Some (enumerable, v) \<Rightarrow> Inr (v, h)
      | None \<Rightarrow> Inl (ExpressionSecurityError (''Access to '' @ quoted n @ '' is not allowed'')))"
  by (simp add: has_own_obj del: has_own.simps split: option.split)

theorem identifier_lookup_witness:
  "evaluateNode (Identifier ''tag'') (VObj 0 [(''tag'', True, VStr ''button'')] ObjectPrototype) 1
     = Inr (VStr ''button'', 1)
   \<and> evaluateNode (Identifier ''window'') (VObj 0 [(''tag'', True, VStr ''button'')] ObjectPrototype) 1
     = Inl (ExpressionSecurityError (''Access to '' @ quoted ''window'' @ '' is not allowed''))"
  using identifier_lookup [of "''tag''" 0 "[(''tag'', True, VStr ''button'')]" ObjectPrototype 1]
    identifier_lookup [of "''window''" 0 "[(''tag'', True, VStr ''button'')]" ObjectPrototype 1]
  by simp

text \<open>
  Claim C2, as stated, fails: \<^verbatim>\<open>Object.hasOwn\<close> does not look at the enumerable flag.
  A context whose own property \<^verbatim>\<open>hidden\<close> is not enumerable still yields its value, and
  \<^verbatim>\<open>[null, null].length\<close> reads the non-enumerable \<^verbatim>\<open>length\<close> of an array.
\<close>

theorem own_enumerable_only_counterexample:
  "\<not> is_enumerable (VObj 0 [(''hidden'', False, VNum (Fin 1))] ObjectPrototype) ''hidden''
   \<and> evaluateNode (Identifier ''hidden'') (VObj 0 [(''hidden'', False, VNum (Fin 1))] ObjectPrototype) 1
       = Inr (VNum (Fin 1), 1)
   \<and> \<not> is_enumerable (VArr 1 [VNull, VNull]) ''length''
   \<and> evaluateNode (MemberAccess (ArrayLiteral [Literal LNull, Literal LNull]) ''length'')
         (VObj 0 [] ObjectPrototype) 1
       = Inr (VNum (Fin 2), 2)"
  by (simp add: is_enumerable_def typeof_def index_key_not_length [THEN not_sym] image_iff)

text \<open>
  Claim C2, amended. For an identifier looked up in an object and for a member access
  on a value that is an object, exactly the own keys are visible, enumerable or not.
  On a plain object the read of an own key returns its value, and the read of any
  other key fails with the security error, also when the prototype chain has the
  key. On an array the own keys are \<^verbatim>\<open>length\<close> and the indices: \<^verbatim>\<open>length\<close> gives the number
  of elements, the index \<open>j\<close> gives the element \<open>j\<close>, and every other key fails with the
  security error.
\<close>

theorem own_keys_only:
  assumes "evaluateNode object context h = Inr (obj, h1)"
  shows "(\<forall>i props proto. obj = VObj i props proto \<longrightarrow>
            evaluateNode (MemberAccess object k) context h =
              (case map_of props k of
                 Some (enumerable, v) \<Rightarrow> Inr (v, h1)
               | None \<Rightarrow> Inl (ExpressionSecurityError (''Access to '' @ quoted k @ '' is not allowed'')))
            \<and> evaluateNode (Identifier k) obj h =
              (case map_of props k of
                 Some (enumerable, v) \<Rightarrow> Inr (v, h)
               | None \<Rightarrow> Inl (ExpressionSecurityError (''Access to '' @ quoted k @ '' is not allowed''))))
         \<and> (\<forall>i xs. obj = VArr i xs \<longrightarrow>
            (k = ''length'' \<longrightarrow>
               evaluateNode (MemberAccess object k) context h
                 = Inr (VNum (Fin (of_nat (length xs))), h1)
               \<and> evaluateNode (Identifier k) obj h = Inr (VNum (Fin (of_nat (length xs))), h))
            \<and> (\<forall>j < length xs. k = index_key j \<longrightarrow>
               evaluateNode (MemberAccess object k) context h = Inr (xs ! j, h1)
               \<and> evaluateNode (Identifier k) obj h = Inr (xs ! j, h))
            \<and> (k \<noteq> ''length'' \<longrightarrow> (\<forall>j < length xs. k \<noteq> index_key j) \<longrightarrow>
               evaluateNode (MemberAccess object k) context h
                 = Inl (ExpressionSecurityError (''Access to '' @ quoted k @ '' is not allowed''))
               \<and> evaluateNode (Identifier k) obj h
                 = Inl (ExpressionSecurityError (''Access to '' @ quoted k @ '' is not allowed''))))"
proof -
  have plain: "has_own (VObj i props proto) key = (map_of props key \<noteq> None)" for i props proto key
    by (rule has_own_obj)
  have arr: "has_own (VArr i xs) key = (key = ''length'' \<or> (\<exists>j < length xs. key = index_key j))"
    for i xs key
    by (auto simp: image_iff)
  have idx: "j < length xs \<Longrightarrow> js_get (VArr i xs) (index_key j) = xs ! j" for i xs j
    by (simp add: index_key_not_length index_key_eq_iff find_index)
  have len: "js_get (VArr i xs) ''length'' = VNum (Fin (of_nat (length xs)))" for i xs
    by simp
  have own: "map_of props key = Some (enumerable, v) \<Longrightarrow> js_get (VObj i props proto) key = v"
    for i props proto key enumerable v
    by simp
  show ?thesis
    using assms
    by (auto simp: plain arr idx len own typeof_def index_key_not_length
        index_key_not_length [THEN not_sym] simp del: has_own.simps js_get.simps
        split: option.split)
qed

theorem own_keys_only_witness:
  "evaluateNode (MemberAccess (Identifier ''element'') ''hidden'')
       (VObj 0 [(''element'', True,
                 VObj 1 [(''hidden'', False, VStr ''x'')]
                   (Prototype [(''inherited'', True, VStr ''y'')] ObjectPrototype))]
          ObjectPrototype) 3
     = Inr (VStr ''x'', 3)
   \<and> evaluateNode (MemberAccess (Identifier ''element'') ''inherited'')
       (VObj 0 [(''element'', True,
                 VObj 1 [(''hidden'', False, VStr ''x'')]
                   (Prototype [(''inherited'', True, VStr ''y'')] ObjectPrototype))]
          ObjectPrototype) 3
     = Inl (ExpressionSecurityError (''Access to '' @ quoted ''inherited'' @ '' is not allowed''))
   \<and> js_get (VObj 1 [(''hidden'', False, VStr ''x'')]
               (Prototype [(''inherited'', True, VStr ''y'')] ObjectPrototype))
         ''inherited'' = VStr ''y''
   \<and> evaluateNode (MemberAccess (ArrayLiteral [Literal (LStr ''a''), Literal (LStr ''b'')]) ''length'')
       (VObj 0 [] ObjectPrototype) 1
     = Inr (VNum (Fin 2), 2)
   \<and> evaluateNode (MemberAccess (ArrayLiteral [Literal (LStr ''a''), Literal (LStr ''b'')]) (index_key 1))
       (VObj 0 [] ObjectPrototype) 1
     = Inr (VStr ''b'', 2)
   \<and> evaluateNode (MemberAccess (ArrayLiteral [Literal (LStr ''a''), Literal (LStr ''b'')]) ''constructor'')
       (VObj 0 [] ObjectPrototype) 1
     = Inl (ExpressionSecurityError (''Access to '' @ quoted ''constructor'' @ '' is not allowed''))"
proof -
  let ?el = "VObj 1 [(''hidden'', False, VStr ''x'')]
               (Prototype [(''inherited'', True, VStr ''y'')] ObjectPrototype)"
  let ?c = "VObj 0 [(''element'', True, ?el)] ObjectPrototype"
  let ?arr = "ArrayLiteral [Literal (LStr ''a''), Literal (LStr ''b'')]"
  have e: "evaluateNode (Identifier ''element'') ?c 3 = Inr (?el, 3)"
    by simp
  have a: "evaluateNode ?arr (VObj 0 [] ObjectPrototype) 1 = Inr (VArr 1 [VStr ''a'', VStr ''b''], 2)"
    by simp
  have "\<not> is_digit (last ''constructor'')"
    by (simp add: is_digit_def in_range_def code_unit_def)
  then have "''constructor'' \<noteq> index_key j" for j
    using index_key_last_digit [of j] by metis
  then have other: "''constructor'' \<noteq> ''length''"
    "\<forall>j < length [VStr ''a'', VStr ''b'']. ''constructor'' \<noteq> index_key j"
    by simp_all
  show ?thesis
    using own_keys_only [OF e, of "''hidden''"] own_keys_only [OF e, of "''inherited''"]
      own_keys_only [OF a, of "''length''"] own_keys_only [OF a, of "index_key 1"]
      own_keys_only [OF a, of "''constructor''"] other
    by (simp del: evaluateNode.simps)
qed

text \<open>
  Claim C5. When the object of a member access evaluates to a value that is null or
  not an object, the access gives undefined and does not fail. When it evaluates to
  an object, an own key gives its value and any other key fails with the security
  error.
\<close>

theorem member_access:
  assumes "evaluateNode object context h = Inr (obj, h1)"
  shows "evaluateNode (MemberAccess object property) context h =
           (if \<not> is_object obj then Inr (VUndefined, h1)
            else if has_own obj property then Inr (js_get obj property, h1)
            else Inl (ExpressionSecurityError
                        (''Access to '' @ quoted property @ '' is not allowed'')))"
  using assms not_object_iff [of obj] by simp

theorem member_access_witness:
  "evaluateNode (MemberAccess (MemberAccess (Identifier ''element'') ''component'') ''doesNotExist'')
     (VObj 0 [(''element'', True, VObj 1 [(''component'', True, VStr ''X'')] ObjectPrototype)] ObjectPrototype) 2
   = Inr (VUndefined, 2)
   \<and> evaluateNode (MemberAccess (Identifier ''element'') ''doesNotExist'')
     (VObj 0 [(''element'', True, VObj 1 [(''component'', True, VStr ''X'')] ObjectPrototype)] ObjectPrototype) 2
   = Inl (ExpressionSecurityError (''Access to '' @ quoted ''doesNotExist'' @ '' is not allowed''))"
proof -
  let ?el = "VObj 1 [(''component'', True, VStr ''X'')] ObjectPrototype"
  let ?c = "VObj 0 [(''element'', True, ?el)] ObjectPrototype"
  have e: "evaluateNode (Identifier ''element'') ?c 2 = Inr (?el, 2)"
    by simp
  have s: "evaluateNode (MemberAccess (Identifier ''element'') ''component'') ?c 2 = Inr (VStr ''X'', 2)"
    by (simp add: typeof_def)
  show ?thesis
    using member_access [OF s, of "''doesNotExist''"] member_access [OF e, of "''doesNotExist''"]
    by (simp add: is_object_def)
qed

text \<open>
  Claim C6. With \<open>v\<close> the value of the left operand: \<^verbatim>\<open>&&\<close> returns \<open>v\<close> when \<open>v\<close> is
  falsy and \<^verbatim>\<open>||\<close> returns \<open>v\<close> when \<open>v\<close> is truthy, in both cases whatever the right
  operand is, so also when evaluating it would fail; otherwise the result is the
  evaluation of the right operand.
\<close>

theorem short_circuit:
  assumes "evaluateNode l context h = Inr (v, h1)"
  shows "evaluateNode (BinaryOp ''&&'' l r) context h =
           (if to_boolean v then evaluateNode r context h1 else Inr (v, h1))
         \<and> evaluateNode (BinaryOp ''||'' l r) context h =
           (if to_boolean v then Inr (v, h1) else evaluateNode r context h1)"
  using assms by simp

theorem short_circuit_witness:
  "evaluateNode (BinaryOp ''&&'' (Literal (LBool False)) (Identifier ''window'')) (VObj 0 [] ObjectPrototype) 1
     = Inr (VBool False, 1)
   \<and> evaluateNode (BinaryOp ''||'' (Literal (LStr ''a'')) (Identifier ''window'')) (VObj 0 [] ObjectPrototype) 1
     = Inr (VStr ''a'', 1)
   \<and> evaluateNode (Identifier ''window'') (VObj 0 [] ObjectPrototype) 1
     = Inl (ExpressionSecurityError (''Access to '' @ quoted ''window'' @ '' is not allowed''))"
proof -
  have f: "evaluateNode (Literal (LBool False)) (VObj 0 [] ObjectPrototype) 1 = Inr (VBool False, 1)"
    by simp
  have t: "evaluateNode (Literal (LStr ''a'')) (VObj 0 [] ObjectPrototype) 1 = Inr (VStr ''a'', 1)"
    by simp
  show ?thesis
    using short_circuit [OF f, of "Identifier ''window''"] short_circuit [OF t, of "Identifier ''window''"]
    by (simp add: to_boolean_def)
qed

text \<open>
  Claim C4, as stated, fails: \<^verbatim>\<open>Array.prototype.includes\<close> compares with SameValueZero,
  under which NaN equals NaN, while \<^verbatim>\<open>NaN === NaN\<close> is false. \<^verbatim>\<open>[1.2.3].includes(1.2.3)\<close>
  parses to the node below and evaluates to true.
\<close>

theorem includes_strict_equality_counterexample:
  "evaluateNode (MethodCall (ArrayLiteral [Literal (LNum NaN)]) ''includes'' [Literal (LNum NaN)])
       (VObj 0 [] ObjectPrototype) 1
     = Inr (VBool True, 2)
   \<and> \<not> strict_eq (VNum NaN) (VNum NaN)"
  by (simp add: is_array_def array_includes_def same_value_zero_def num_eq_def)

text \<open>
  Claim C4, amended. With the receiver evaluated to \<open>obj\<close>: a method other than
  \<^verbatim>\<open>includes\<close> fails with the security error that names it; \<^verbatim>\<open>includes\<close> on a value
  that is not an array fails with a security error; \<^verbatim>\<open>includes\<close> on an array with at
  least one argument evaluates the first argument only and returns true iff an element
  of the array equals its value under SameValueZero (strict equality, except that
  NaN equals NaN).
\<close>

theorem method_call:
  assumes "evaluateNode object context h = Inr (obj, h1)"
  shows "(method \<noteq> ''includes'' \<longrightarrow>
            evaluateNode (MethodCall object method args) context h =
              Inl (ExpressionSecurityError (''Method '' @ quoted method @ '' is not allowed'')))
         \<and> (\<not> is_array obj \<longrightarrow>
            evaluateNode (MethodCall object ''includes'' args) context h =
              Inl (ExpressionSecurityError (quoted ''includes'' @ '' can only be called on arrays'')))
         \<and> (\<forall>i xs v h2. obj = VArr i xs \<longrightarrow> evaluateNode a context h1 = Inr (v, h2) \<longrightarrow>
            evaluateNode (MethodCall object ''includes'' (a # rest)) context h =
              Inr (VBool (\<exists>x \<in> set xs. same_value_zero x v), h2))"
  using assms
  by (simp add: is_array_def array_includes_def list_ex_iff)

theorem method_call_witness:
  "evaluateNode (MethodCall (Literal (LStr ''button'')) ''replace'' [Literal (LStr ''a'')])
       (VObj 0 [] ObjectPrototype) 1
     = Inl (ExpressionSecurityError (''Method '' @ quoted ''replace'' @ '' is not allowed''))
   \<and> evaluateNode (MethodCall (Literal (LStr ''button'')) ''includes'' [Literal (LStr ''a'')])
       (VObj 0 [] ObjectPrototype) 1
     = Inl (ExpressionSecurityError (quoted ''includes'' @ '' can only be called on arrays''))
   \<and> evaluateNode
       (MethodCall (ArrayLiteral [Literal (LStr ''a''), Literal (LStr ''b'')]) ''includes''
          [Literal (LStr ''b''), Identifier ''window''])
       (VObj 0 [] ObjectPrototype) 1
     = Inr (VBool True, 2)"
proof -
  let ?c = "VObj 0 [] ObjectPrototype"
  have s: "evaluateNode (Literal (LStr ''button'')) ?c 1 = Inr (VStr ''button'', 1)"
    by simp
  have arr: "evaluateNode (ArrayLiteral [Literal (LStr ''a''), Literal (LStr ''b'')]) ?c 1
               = Inr (VArr 1 [VStr ''a'', VStr ''b''], 2)"
    by simp
  have b: "evaluateNode (Literal (LStr ''b'')) ?c 2 = Inr (VStr ''b'', 2)"
    by simp
  show ?thesis
    using method_call [OF s, of "''replace''" "[Literal (LStr ''a'')]"]
      method_call [OF s, of "''includes''" "[Literal (LStr ''a'')]"]
      method_call [OF arr, of "''includes''" "[]" "Literal (LStr ''b'')" "[Identifier ''window'']"] b
    by (simp add: is_array_def same_value_zero_def)
qed






text \<open>
  An operand that cannot be converted makes the comparison throw the runtime's
  TypeError: an object with an own data property \<^verbatim>\<open>toString\<close>, and an object whose
  prototype is null.
\<close>

lemma relational_unconvertible:
  "evaluateNode (BinaryOp ''<'' (Identifier ''o'') (Literal (LStr ''a'')))
       (VObj 0 [(''o'', True, VObj 1 [(''toString'', True, VStr ''x'')] ObjectPrototype)]
          ObjectPrototype) 2
     = Inl cannot_convert
   \<and> evaluateNode (BinaryOp ''<'' (Identifier ''o'') (Literal (LStr ''a'')))
       (VObj 0 [(''o'', True, VObj 1 [] NullPrototype)] ObjectPrototype) 2
     = Inl cannot_convert"
  by (simp add: less_than_def to_primitive_def is_object_def built_in_method_def)

section \<open>Properties of the public functions\<close>

lemma compileExpression_total: "compileExpression expression \<noteq> None"
  by (simp add: compileExpression_def parse_total split: sum.split option.split)

lemma compile_hash:
  "compileExpression ''#'' = Some (Inl (ExpressionSyntaxError
     (''Unexpected character: '' @ quoted ''#'' @ '' at position '' @ digits_of 0)))"
  by (simp add: compileExpression_def tokenize_def lex_step_def Let_def is_space_def is_digit_def
      is_ident_start_def in_range_def code_unit_def)

lemma compile_w: "compileExpression ''w'' = Some (Inr (evaluateNode (Identifier ''w'')))"
  by (simp add: compileExpression_def tokenize_def lex_step_def Let_def is_space_def is_digit_def
      is_ident_start_def is_ident_char_def in_range_def code_unit_def parse_def parse_fuel_def
      numeral_eq_Suc is_operator_def del: evaluateNode.simps)

lemma compile_true: "compileExpression ''true'' = Some (Inr (evaluateNode (Literal (LBool True))))"
  by (simp add: compileExpression_def tokenize_def lex_step_def Let_def is_space_def is_digit_def
      is_ident_start_def is_ident_char_def in_range_def code_unit_def parse_def parse_fuel_def
      numeral_eq_Suc is_operator_def del: evaluateNode.simps)

lemma safeEvaluateExpression_total: "safeEvaluateExpression expression context h \<noteq> None"
  using compileExpression_total [of expression]
  by (auto simp: safeEvaluateExpression_def split: option.splits sum.splits)

lemma evaluateEntries_any:
  "evaluateEntries es context h = Some (\<exists>e \<in> set es. truthy e context h)"
proof (induction es)
  case Nil
  show ?case by simp
next
  case (Cons e es)
  then show ?case
    using safeEvaluateExpression_total [of e "context" h]
    by (auto simp: truthy_def split: option.splits)
qed

text \<open>
  Claim C8. \<open>safeEvaluateExpression\<close> always returns: compiling never runs out of
  fuel. When lexing or parsing fails, and when the evaluation fails, the result is the
  boolean false; otherwise it is the result of the evaluation, unchanged.
\<close>

theorem safe_evaluate:
  "compileExpression expression \<noteq> None
   \<and> (\<forall>e. compileExpression expression = Some (Inl e) \<longrightarrow>
          safeEvaluateExpression expression context h = Some (VBool False, h))
   \<and> (\<forall>evaluator e. compileExpression expression = Some (Inr evaluator) \<longrightarrow>
          evaluator context h = Inl e \<longrightarrow>
          safeEvaluateExpression expression context h = Some (VBool False, h))
   \<and> (\<forall>evaluator r. compileExpression expression = Some (Inr evaluator) \<longrightarrow>
          evaluator context h = Inr r \<longrightarrow>
          safeEvaluateExpression expression context h = Some r)"
  using compileExpression_total [of expression]
  by (simp add: safeEvaluateExpression_def)

theorem safe_evaluate_witness:
  "safeEvaluateExpression ''#'' (VObj 0 [] ObjectPrototype) 1 = Some (VBool False, 1)
   \<and> safeEvaluateExpression ''w'' (VObj 0 [] ObjectPrototype) 1 = Some (VBool False, 1)
   \<and> safeEvaluateExpression ''true'' (VObj 0 [] ObjectPrototype) 1 = Some (VBool True, 1)"
  using safe_evaluate [of "''#''" "VObj 0 [] ObjectPrototype" 1]
    safe_evaluate [of "''w''" "VObj 0 [] ObjectPrototype" 1]
    safe_evaluate [of "''true''" "VObj 0 [] ObjectPrototype" 1]
  by (simp add: compile_hash compile_w compile_true)

text \<open>
  Claim C9. \<open>evaluateShowWhen\<close> gives true for the absent and for the empty list. For
  a list with entries it gives the disjunction of the entries' truthiness under
  \<open>safeEvaluateExpression\<close>; it goes through the list in order and stops at the first
  truthy entry.
\<close>

theorem show_when:
  "evaluateShowWhen None context h = Some True
   \<and> evaluateShowWhen (Some []) context h = Some True
   \<and> (es \<noteq> [] \<longrightarrow>
        evaluateShowWhen (Some es) context h = Some (\<exists>e \<in> set es. truthy e context h))
   \<and> evaluateShowWhen (Some (e # es)) context h =
        (if truthy e context h then Some True
         else if es = [] then Some False
         else evaluateShowWhen (Some es) context h)"
  using safeEvaluateExpression_total [of e "context" h]
  by (auto simp: evaluateShowWhen_def evaluateEntries_any truthy_def split: option.splits)

theorem show_when_witness:
  "evaluateShowWhen None (VObj 0 [] ObjectPrototype) 1 = Some True
   \<and> evaluateShowWhen (Some []) (VObj 0 [] ObjectPrototype) 1 = Some True
   \<and> evaluateShowWhen (Some [''w'', ''true'']) (VObj 0 [] ObjectPrototype) 1 = Some True
   \<and> evaluateShowWhen (Some [''w'']) (VObj 0 [] ObjectPrototype) 1 = Some False"
proof -
  let ?c = "VObj 0 [] ObjectPrototype"
  have w: "\<not> truthy ''w'' ?c 1"
    by (simp add: truthy_def safeEvaluateExpression_def compile_w to_boolean_def)
  have t: "truthy ''true'' ?c 1"
    by (simp add: truthy_def safeEvaluateExpression_def compile_true to_boolean_def)
  show ?thesis
    using show_when [of ?c 1 "[''w'', ''true'']" "''w''"] show_when [of ?c 1 "[''w'']" "''w''"] w t
    by simp
qed

text \<open>
  Claim C3: the input \<^verbatim>\<open>[].includes()\<close>. The parser accepts it, with an empty argument
  list; the evaluator then reads \<^verbatim>\<open>node.args[0]\<close>, which is undefined, and the
  evaluation fails with a TypeError, which is neither a security nor a syntax error.
\<close>

theorem includes_without_argument:
  "tokenize ''[].includes()''
     = Inr [Token T_lbracket ''['', Token T_rbracket '']'', Token T_dot ''.'',
            Token T_identifier ''includes'', Token T_lparen ''('', Token T_rparen '')'',
            Token T_eof []]
   \<and> parse [Token T_lbracket ''['', Token T_rbracket '']'', Token T_dot ''.'',
             Token T_identifier ''includes'', Token T_lparen ''('', Token T_rparen '')'',
             Token T_eof []]
     = Some (Inr (MethodCall (ArrayLiteral []) ''includes'' []))
   \<and> evaluateNode (MethodCall (ArrayLiteral []) ''includes'' []) (VObj 0 [] ObjectPrototype) 1
     = Inl (TypeError ''Cannot read properties of undefined (reading type)'')"
  by code_simp

end
